theory Spec2Isabelle
  imports Main
begin

section \<open>Binary encoding of jsonpath (src/backend/utils/adt/jsonpath.c)\<close>

text \<open>
  The development follows \<^verbatim>\<open>jsonpath.c\<close>: the encoder
  \<^verbatim>\<open>flattenJsonPathParseItem\<close> writes a parse tree into a \<^verbatim>\<open>StringInfo\<close>, the
  reader \<^verbatim>\<open>jspInitByBuffer\<close> decodes one item of that buffer, and the printer
  \<^verbatim>\<open>printJsonPathItem\<close> and the analysis \<^verbatim>\<open>jspIsMutableWalker\<close> walk the buffer
  through the reader.

  A \<^verbatim>\<open>StringInfo\<close> is a \<^verbatim>\<open>char\<close> array with a length: a \<^typ>\<open>string\<close>. Pointers
  into the buffer are offsets from its first byte. An \<^verbatim>\<open>int32\<close> is stored in four
  bytes, least significant first, with the wrap-around modulo \<open>2 ^ 32\<close> written out.
\<close>

subsection \<open>Item kinds\<close>

datatype JsonPathItemType =
    jpiNull | jpiString | jpiNumeric | jpiBool
  | jpiAnd | jpiOr | jpiNot | jpiIsUnknown
  | jpiEqual | jpiNotEqual | jpiLess | jpiGreater | jpiLessOrEqual | jpiGreaterOrEqual
  | jpiAdd | jpiSub | jpiMul | jpiDiv | jpiMod | jpiPlus | jpiMinus
  | jpiAnyArray | jpiAnyKey | jpiIndexArray | jpiAny | jpiKey
  | jpiCurrent | jpiRoot | jpiVariable | jpiFilter | jpiExists
  | jpiType | jpiSize | jpiAbs | jpiFloor | jpiCeiling | jpiDouble | jpiDatetime | jpiKeyValue
  | jpiSubscript | jpiLast | jpiStartsWith | jpiLikeRegex
  | jpiSequence | jpiArray | jpiObject | jpiObjectField

text \<open>
  Modelled from the spec: the numbering of \<^verbatim>\<open>enum JsonPathItemType\<close> is declared in
  \<^verbatim>\<open>utils/jsonpath.h\<close>, which is not among the sources. The spec fixes only that the
  kind tag is one byte; the kinds are numbered here in the order of the datatype, from 0.
  No result depends on the numbers beyond their being distinct and below 256.
\<close>

fun item_type_code :: "JsonPathItemType \<Rightarrow> nat" where
  "item_type_code jpiNull = 0"
| "item_type_code jpiString = 1"
| "item_type_code jpiNumeric = 2"
| "item_type_code jpiBool = 3"
| "item_type_code jpiAnd = 4"
| "item_type_code jpiOr = 5"
| "item_type_code jpiNot = 6"
| "item_type_code jpiIsUnknown = 7"
| "item_type_code jpiEqual = 8"
| "item_type_code jpiNotEqual = 9"
| "item_type_code jpiLess = 10"
| "item_type_code jpiGreater = 11"
| "item_type_code jpiLessOrEqual = 12"
| "item_type_code jpiGreaterOrEqual = 13"
| "item_type_code jpiAdd = 14"
| "item_type_code jpiSub = 15"
| "item_type_code jpiMul = 16"
| "item_type_code jpiDiv = 17"
| "item_type_code jpiMod = 18"
| "item_type_code jpiPlus = 19"
| "item_type_code jpiMinus = 20"
| "item_type_code jpiAnyArray = 21"
| "item_type_code jpiAnyKey = 22"
| "item_type_code jpiIndexArray = 23"
| "item_type_code jpiAny = 24"
| "item_type_code jpiKey = 25"
| "item_type_code jpiCurrent = 26"
| "item_type_code jpiRoot = 27"
| "item_type_code jpiVariable = 28"
| "item_type_code jpiFilter = 29"
| "item_type_code jpiExists = 30"
| "item_type_code jpiType = 31"
| "item_type_code jpiSize = 32"
| "item_type_code jpiAbs = 33"
| "item_type_code jpiFloor = 34"
| "item_type_code jpiCeiling = 35"
| "item_type_code jpiDouble = 36"
| "item_type_code jpiDatetime = 37"
| "item_type_code jpiKeyValue = 38"
| "item_type_code jpiSubscript = 39"
| "item_type_code jpiLast = 40"
| "item_type_code jpiStartsWith = 41"
| "item_type_code jpiLikeRegex = 42"
| "item_type_code jpiSequence = 43"
| "item_type_code jpiArray = 44"
| "item_type_code jpiObject = 45"
| "item_type_code jpiObjectField = 46"

definition JsonPathItemTypes :: "JsonPathItemType list" where
  "JsonPathItemTypes =
    [jpiNull, jpiString, jpiNumeric, jpiBool,
     jpiAnd, jpiOr, jpiNot, jpiIsUnknown,
     jpiEqual, jpiNotEqual, jpiLess, jpiGreater, jpiLessOrEqual, jpiGreaterOrEqual,
     jpiAdd, jpiSub, jpiMul, jpiDiv, jpiMod, jpiPlus, jpiMinus,
     jpiAnyArray, jpiAnyKey, jpiIndexArray, jpiAny, jpiKey,
     jpiCurrent, jpiRoot, jpiVariable, jpiFilter, jpiExists,
     jpiType, jpiSize, jpiAbs, jpiFloor, jpiCeiling, jpiDouble, jpiDatetime, jpiKeyValue,
     jpiSubscript, jpiLast, jpiStartsWith, jpiLikeRegex,
     jpiSequence, jpiArray, jpiObject, jpiObjectField]"

definition item_type_of_code :: "nat \<Rightarrow> JsonPathItemType option" where
  "item_type_of_code n = find (\<lambda>t. item_type_code t = n) JsonPathItemTypes"

subsection \<open>Errors\<close>

text \<open>
  Every \<^verbatim>\<open>ereport(ERROR, ...)\<close> and \<^verbatim>\<open>elog(ERROR, ...)\<close> of the file is a value.
  \<open>UndefinedBehaviour\<close> stands for what C leaves undefined and the parser never
  produces: a union member read under the wrong item type, a dereferenced null child, a
  read outside the buffer.
\<close>

datatype error =
    StackDepthExceeded
  | ExtensionsNotEnabled
  | CurrentNotAllowed
  | LastNotAllowed
  | UnrecognizedItemType
  | InvalidInputSyntax
  | UnsupportedVersion nat
  | InsufficientData
  | UndefinedBehaviour

subsection \<open>The parse tree\<close>

text \<open>
  \<^verbatim>\<open>JsonPathParseItem\<close> has a type, a \<^verbatim>\<open>next\<close> link and a union \<^verbatim>\<open>value\<close>; each
  alternative of \<open>JsonPathParseValue\<close> is one member of the union. A child that the code
  tests against \<^verbatim>\<open>NULL\<close> is an option; a child that it dereferences without a test is
  not. A numeric is the byte image of its varlena, whose \<^verbatim>\<open>VARSIZE\<close> is its length.
\<close>

datatype JsonPathParseItem =
    ParseItem (ptype: JsonPathItemType) (pvalue: JsonPathParseValue)
      (pnext: "JsonPathParseItem option")
and JsonPathParseValue =
    VNone
  | VString string
  | VNumeric string
  | VBoolean bool
  | VArgs "JsonPathParseItem option" "JsonPathParseItem option"
  | VArg "JsonPathParseItem option"
  | VLikeRegex JsonPathParseItem string nat
  | VArray "(JsonPathParseItem \<times> JsonPathParseItem option) list"
  | VAnybounds nat nat
  | VSequence "JsonPathParseItem list"
  | VObject "JsonPathParseItem list"

subsection \<open>The buffer writer\<close>

text \<open>\<^verbatim>\<open>buf->len\<close>, an \<^verbatim>\<open>int\<close>.\<close>

definition len :: "'a list \<Rightarrow> int" where
  "len xs = int (length xs)"

definition JSONPATH_HDRSZ :: int where
  "JSONPATH_HDRSZ = 8"

definition int32_bytes :: "int \<Rightarrow> string" where
  "int32_bytes i =
     (let n = i mod 2 ^ 32
      in [char_of n, char_of (n div 2 ^ 8), char_of (n div 2 ^ 16), char_of (n div 2 ^ 24)])"

definition INTALIGN :: "int \<Rightarrow> int" where
  "INTALIGN LEN = ((LEN + 3) div 4) * 4"

definition appendStringInfoChar :: "string \<Rightarrow> char \<Rightarrow> string" where
  "appendStringInfoChar buf c = buf @ [c]"

definition appendBinaryStringInfo :: "string \<Rightarrow> string \<Rightarrow> string" where
  "appendBinaryStringInfo buf s = buf @ s"

definition appendStringInfoSpaces :: "string \<Rightarrow> int \<Rightarrow> string" where
  "appendStringInfoSpaces buf n = buf @ replicate (nat n) (CHR '' '')"

definition alignStringInfoInt :: "string \<Rightarrow> string" where
  "alignStringInfoInt buf =
     (let n = INTALIGN (len buf) - len buf
      in if n = 3 then buf @ [CHR 0x00, CHR 0x00, CHR 0x00]
         else if n = 2 then buf @ [CHR 0x00, CHR 0x00]
         else if n = 1 then buf @ [CHR 0x00]
         else buf)"

definition reserveSpaceForItemPointer :: "string \<Rightarrow> int \<times> string" where
  "reserveSpaceForItemPointer buf = (len buf, appendBinaryStringInfo buf (int32_bytes 0))"

text \<open>
  \<^verbatim>\<open>*(int32 *) (buf->data + p) = v\<close>: four bytes of the buffer are overwritten. The
  encoder only writes to slots it has reserved, so the store is always inside the buffer;
  outside it, the list update leaves the buffer as it is.
\<close>

definition store_int32 :: "string \<Rightarrow> int \<Rightarrow> int \<Rightarrow> string" where
  "store_int32 buf p v =
     (let bs = int32_bytes v
      in buf[nat p := bs ! 0, nat (p + 1) := bs ! 1, nat (p + 2) := bs ! 2,
             nat (p + 3) := bs ! 3])"

text \<open>
  The first statements of \<^verbatim>\<open>flattenJsonPathParseItem\<close>: the kind tag, the padding and
  the reserved \<^verbatim>\<open>next\<close> slot. The result is the position of the slot and the buffer.
\<close>

definition flatten_item_header :: "string \<Rightarrow> JsonPathItemType \<Rightarrow> int \<times> string" where
  "flatten_item_header buf t =
     reserveSpaceForItemPointer
       (alignStringInfoInt (appendStringInfoChar buf (char_of (item_type_code t))))"

subsection \<open>The encoder\<close>

text \<open>
  Modelled from the spec: \<^verbatim>\<open>check_stack_depth()\<close> belongs to the server, not to this
  file; the spec asks for an explicit bounded-depth counter. The first argument of the
  encoder is the number of nested calls the stack still allows; a call with none left
  fails with \<open>StackDepthExceeded\<close>. \<^verbatim>\<open>CHECK_FOR_INTERRUPTS()\<close> reacts to a signal from
  outside and is left out.
\<close>

definition binary_types :: "JsonPathItemType set" where
  "binary_types =
     {jpiAnd, jpiOr, jpiEqual, jpiNotEqual, jpiLess, jpiGreater, jpiLessOrEqual,
      jpiGreaterOrEqual, jpiAdd, jpiSub, jpiMul, jpiDiv, jpiMod, jpiStartsWith}"

definition unary_types :: "JsonPathItemType set" where
  "unary_types =
     {jpiFilter, jpiIsUnknown, jpiNot, jpiPlus, jpiMinus, jpiExists, jpiDatetime, jpiArray}"

definition plain_types :: "JsonPathItemType set" where
  "plain_types =
     {jpiNull, jpiRoot, jpiAnyArray, jpiAnyKey, jpiType, jpiSize, jpiAbs, jpiFloor,
      jpiCeiling, jpiDouble, jpiKeyValue}"

definition checkJsonPathExtensionsEnabled :: "bool \<Rightarrow> error + unit" where
  "checkJsonPathExtensionsEnabled ext = (if \<not> ext then Inl ExtensionsNotEnabled else Inr ())"

type_synonym flatten_fun =
  "bool \<Rightarrow> JsonPathParseItem \<Rightarrow> int \<Rightarrow> bool \<Rightarrow> string \<Rightarrow> error + (int \<times> string)"

text \<open>
  The three loops of the encoder. \<open>self\<close> is the recursive call
  \<^verbatim>\<open>flattenJsonPathParseItem(cxt, ...)\<close> with the stack that is left; \<open>offset\<close> is the
  position of the slots of the current element.
\<close>

fun flatten_subscripts ::
    "flatten_fun \<Rightarrow> bool \<Rightarrow> (JsonPathParseItem \<times> JsonPathParseItem option) list \<Rightarrow> int \<Rightarrow>
     int \<Rightarrow> int \<Rightarrow> string \<Rightarrow> error + string"
where
  "flatten_subscripts self ext [] nestingLevel pos offset buf = Inr buf"
| "flatten_subscripts self ext ((from, to) # elems) nestingLevel pos offset buf =
    (case self ext from nestingLevel True buf of
       Inl e \<Rightarrow> Inl e
     | Inr (frompos, buf) \<Rightarrow>
         (case (case to of
                  None \<Rightarrow> Inr (0, buf)
                | Some a \<Rightarrow>
                    (case self ext a nestingLevel True buf of
                       Inl e \<Rightarrow> Inl e
                     | Inr (p, buf) \<Rightarrow> Inr (p - pos, buf))) of
            Inl e \<Rightarrow> Inl e
          | Inr (topos, buf) \<Rightarrow>
              flatten_subscripts self ext elems nestingLevel pos (offset + 2 * 4)
                (store_int32 (store_int32 buf offset (frompos - pos)) (offset + 4) topos)))"

fun flatten_elems ::
    "flatten_fun \<Rightarrow> bool \<Rightarrow> JsonPathParseItem list \<Rightarrow> int \<Rightarrow> bool \<Rightarrow> int \<Rightarrow> int \<Rightarrow> string \<Rightarrow>
     error + string"
where
  "flatten_elems self ext [] nestingLevel insideArraySubscript pos offset buf = Inr buf"
| "flatten_elems self ext (elem # elems) nestingLevel insideArraySubscript pos offset buf =
    (case self ext elem nestingLevel insideArraySubscript buf of
       Inl e \<Rightarrow> Inl e
     | Inr (elempos, buf) \<Rightarrow>
         flatten_elems self ext elems nestingLevel insideArraySubscript pos (offset + 4)
           (store_int32 buf offset (elempos - pos)))"

fun flatten_fields ::
    "flatten_fun \<Rightarrow> bool \<Rightarrow> JsonPathParseItem list \<Rightarrow> int \<Rightarrow> bool \<Rightarrow> int \<Rightarrow> int \<Rightarrow> string \<Rightarrow>
     error + string"
where
  "flatten_fields self ext [] nestingLevel insideArraySubscript pos offset buf = Inr buf"
| "flatten_fields self ext (field # fields) nestingLevel insideArraySubscript pos offset buf =
    (case pvalue field of
       VArgs (Some k) (Some v) \<Rightarrow>
         (case self ext k nestingLevel insideArraySubscript buf of
            Inl e \<Rightarrow> Inl e
          | Inr (keypos, buf) \<Rightarrow>
              (case self ext v nestingLevel insideArraySubscript buf of
                 Inl e \<Rightarrow> Inl e
               | Inr (valpos, buf) \<Rightarrow>
                   flatten_fields self ext fields nestingLevel insideArraySubscript pos
                     (offset + 2 * 4)
                     (store_int32 (store_int32 buf offset (keypos - pos)) (offset + 4)
                        (valpos - pos))))
     | _ \<Rightarrow> Inl UndefinedBehaviour)"

text \<open>
  The body of \<^verbatim>\<open>flattenJsonPathParseItem\<close> after \<^verbatim>\<open>check_stack_depth()\<close>, with the
  recursive call as the parameter \<open>self\<close>. The \<^verbatim>\<open>switch\<close> yields the buffer with the
  payload written, or the error raised; the \<^verbatim>\<open>next\<close> link follows it.
\<close>

definition flatten_item ::
    "flatten_fun \<Rightarrow> bool \<Rightarrow> JsonPathParseItem \<Rightarrow> int \<Rightarrow> bool \<Rightarrow> string \<Rightarrow>
     error + (int \<times> string)"
where
  "flatten_item self ext item nestingLevel insideArraySubscript buf0 =
    (let pos = len buf0 - JSONPATH_HDRSZ;
         (next, buf) = flatten_item_header buf0 (ptype item);
         t = ptype item
     in
     case
      (if t = jpiString \<or> t = jpiVariable \<or> t = jpiKey then
         (case pvalue item of
            VString s \<Rightarrow>
              Inr (appendStringInfoChar
                     (appendBinaryStringInfo
                        (appendBinaryStringInfo buf (int32_bytes (len s))) s)
                     (CHR 0x00))
          | _ \<Rightarrow> Inl UndefinedBehaviour)
       else if t = jpiNumeric then
         (case pvalue item of
            VNumeric n \<Rightarrow> Inr (appendBinaryStringInfo buf n)
          | _ \<Rightarrow> Inl UndefinedBehaviour)
       else if t = jpiBool then
         (case pvalue item of
            VBoolean b \<Rightarrow> Inr (appendBinaryStringInfo buf [if b then CHR 0x01 else CHR 0x00])
          | _ \<Rightarrow> Inl UndefinedBehaviour)
       else if t \<in> binary_types then
         (case pvalue item of
            VArgs l r \<Rightarrow>
              (let (left, buf) = reserveSpaceForItemPointer buf;
                   (right, buf) = reserveSpaceForItemPointer buf
               in case (case l of
                          None \<Rightarrow> Inr (pos, buf)
                        | Some a \<Rightarrow>
                            self ext a (nestingLevel + 0)
                              insideArraySubscript buf) of
                    Inl e \<Rightarrow> Inl e
                  | Inr (chld, buf) \<Rightarrow>
                      (let buf = store_int32 buf left (chld - pos)
                       in case (case r of
                                  None \<Rightarrow> Inr (pos, buf)
                                | Some a \<Rightarrow>
                                    self ext a (nestingLevel + 0)
                                      insideArraySubscript buf) of
                            Inl e \<Rightarrow> Inl e
                          | Inr (chld, buf) \<Rightarrow> Inr (store_int32 buf right (chld - pos))))
          | _ \<Rightarrow> Inl UndefinedBehaviour)
       else if t = jpiLikeRegex then
         (case pvalue item of
            VLikeRegex expr pattern flags \<Rightarrow>
              (let buf = appendBinaryStringInfo buf (int32_bytes (int flags));
                   (offs, buf) = reserveSpaceForItemPointer buf;
                   buf = appendBinaryStringInfo buf (int32_bytes (len pattern));
                   buf = appendBinaryStringInfo buf pattern;
                   buf = appendStringInfoChar buf (CHR 0x00)
               in case self ext expr nestingLevel
                         insideArraySubscript buf of
                    Inl e \<Rightarrow> Inl e
                  | Inr (chld, buf) \<Rightarrow> Inr (store_int32 buf offs (chld - pos)))
          | _ \<Rightarrow> Inl UndefinedBehaviour)
       else if t \<in> unary_types then
         (case pvalue item of
            VArg a \<Rightarrow>
              (let argNestingLevel = (if t = jpiFilter then 1 else 0);
                   (arg, buf) = reserveSpaceForItemPointer buf
               in case (if t = jpiArray then checkJsonPathExtensionsEnabled ext
                        else Inr ()) of
                    Inl e \<Rightarrow> Inl e
                  | Inr _ \<Rightarrow>
                      (case a of
                         None \<Rightarrow> Inr buf
                       | Some a \<Rightarrow>
                           (case self ext a
                                   (nestingLevel + argNestingLevel)
                                   insideArraySubscript buf of
                              Inl e \<Rightarrow> Inl e
                            | Inr (chld, buf) \<Rightarrow> Inr (store_int32 buf arg (chld - pos)))))
          | _ \<Rightarrow> Inl UndefinedBehaviour)
       else if t \<in> plain_types then Inr buf
       else if t = jpiCurrent then
         (if nestingLevel \<le> 0 then Inl CurrentNotAllowed else Inr buf)
       else if t = jpiLast then
         (if \<not> insideArraySubscript then Inl LastNotAllowed else Inr buf)
       else if t = jpiIndexArray then
         (case pvalue item of
            VArray elems \<Rightarrow>
              (let nelems = len elems;
                   buf = appendBinaryStringInfo buf (int32_bytes nelems);
                   offset = len buf;
                   buf = appendStringInfoSpaces buf (4 * 2 * nelems)
               in flatten_subscripts self ext elems nestingLevel pos offset buf)
          | _ \<Rightarrow> Inl UndefinedBehaviour)
       else if t = jpiAny then
         (case pvalue item of
            VAnybounds anyfirst anylast \<Rightarrow>
              Inr (appendBinaryStringInfo
                     (appendBinaryStringInfo buf (int32_bytes (int anyfirst)))
                     (int32_bytes (int anylast)))
          | _ \<Rightarrow> Inl UndefinedBehaviour)
       else if t = jpiSequence then
         (case pvalue item of
            VSequence elems \<Rightarrow>
              (let nelems = len elems
               in case checkJsonPathExtensionsEnabled ext of
                    Inl e \<Rightarrow> Inl e
                  | Inr _ \<Rightarrow>
                      (let buf = appendBinaryStringInfo buf (int32_bytes nelems);
                           offset = len buf;
                           buf = appendStringInfoSpaces buf (4 * nelems)
                       in flatten_elems self ext elems nestingLevel insideArraySubscript pos
                            offset buf))
          | _ \<Rightarrow> Inl UndefinedBehaviour)
       else if t = jpiObject then
         (case pvalue item of
            VObject fields \<Rightarrow>
              (let nfields = len fields
               in case checkJsonPathExtensionsEnabled ext of
                    Inl e \<Rightarrow> Inl e
                  | Inr _ \<Rightarrow>
                      (let buf = appendBinaryStringInfo buf (int32_bytes nfields);
                           offset = len buf;
                           buf = appendStringInfoSpaces buf (4 * 2 * nfields)
                       in flatten_fields self ext fields nestingLevel insideArraySubscript pos
                            offset buf))
          | _ \<Rightarrow> Inl UndefinedBehaviour)
       else Inl UnrecognizedItemType)
     of
       Inl e \<Rightarrow> Inl e
     | Inr buf \<Rightarrow>
         (case pnext item of
            None \<Rightarrow> Inr (pos, buf)
          | Some n \<Rightarrow>
              (case self ext n nestingLevel insideArraySubscript buf of
                 Inl e \<Rightarrow> Inl e
               | Inr (chld, buf) \<Rightarrow> Inr (pos, store_int32 buf next (chld - pos)))))"

fun flattenJsonPathParseItem ::
    "nat \<Rightarrow> bool \<Rightarrow> JsonPathParseItem \<Rightarrow> int \<Rightarrow> bool \<Rightarrow> string \<Rightarrow> error + (int \<times> string)"
where
  "flattenJsonPathParseItem 0 ext item nestingLevel insideArraySubscript buf0 =
     Inl StackDepthExceeded"
| "flattenJsonPathParseItem (Suc d) ext item nestingLevel insideArraySubscript buf0 =
     flatten_item (flattenJsonPathParseItem d) ext item nestingLevel insideArraySubscript buf0"

subsection \<open>Reading an item of the buffer\<close>

text \<open>
  \<open>buf\<close> is the data area of a jsonpath value (\<^verbatim>\<open>js->data\<close>), which starts on an
  \<^verbatim>\<open>int\<close> boundary; a pointer into it is its offset from the first byte. A read outside
  the buffer is undefined in C and is \<open>UndefinedBehaviour\<close> here.
\<close>

definition read_byte :: "string \<Rightarrow> int \<Rightarrow> error + nat" where
  "read_byte b p =
     (if 0 \<le> p \<and> p < len b then Inr (of_char (b ! nat p))
      else Inl UndefinedBehaviour)"

definition read_uint32 :: "string \<Rightarrow> int \<Rightarrow> error + int" where
  "read_uint32 b p =
     (if 0 \<le> p \<and> p + 4 \<le> len b
      then Inr (of_char (b ! nat p) + 2 ^ 8 * of_char (b ! nat (p + 1))
                + 2 ^ 16 * of_char (b ! nat (p + 2)) + 2 ^ 24 * of_char (b ! nat (p + 3)))
      else Inl UndefinedBehaviour)"

definition to_int32 :: "int \<Rightarrow> int" where
  "to_int32 n = (if n mod 2 ^ 32 < 2 ^ 31 then n mod 2 ^ 32 else n mod 2 ^ 32 - 2 ^ 32)"

definition read_int32 :: "string \<Rightarrow> int \<Rightarrow> error + int" where
  "read_int32 b p = (case read_uint32 b p of Inl e \<Rightarrow> Inl e | Inr n \<Rightarrow> Inr (to_int32 n))"

text \<open>
  The union \<^verbatim>\<open>content\<close> of \<^verbatim>\<open>JsonPathItem\<close>. Offsets of children are kept as read,
  relative to the item; \<open>data\<close>, \<open>pattern\<close> and the arrays of offsets are pointers
  into the buffer. \<^verbatim>\<open>datalen\<close> is not assigned for a numeric or a boolean and is 0 then.
\<close>

datatype JsonPathItemContent =
    CNone
  | CArgs int int
  | CArg int
  | CArray int int
  | CObject int int
  | CAnybounds int int
  | CValue int int
  | CSequence int int
  | CLikeRegex int int int int

record JsonPathItem =
  type :: JsonPathItemType
  nextPos :: int
  base :: int
  content :: JsonPathItemContent

definition jspInitByBuffer :: "string \<Rightarrow> int \<Rightarrow> int \<Rightarrow> error + JsonPathItem" where
  "jspInitByBuffer buf base0 pos0 =
    (case read_byte buf (base0 + pos0) of
       Inl e \<Rightarrow> Inl e
     | Inr code \<Rightarrow>
        (let pos = INTALIGN (base0 + (pos0 + 1)) - base0
         in case read_int32 buf (base0 + pos) of
              Inl e \<Rightarrow> Inl e
            | Inr nxt \<Rightarrow>
               (let pos = pos + 4;
                    item = (\<lambda>t c. \<lparr>type = t, nextPos = nxt, base = base0 + pos0, content = c\<rparr>)
                in case item_type_of_code code of
                     None \<Rightarrow> Inl UnrecognizedItemType
                   | Some t \<Rightarrow>
                      (if t \<in> {jpiNull, jpiRoot, jpiCurrent, jpiAnyArray, jpiAnyKey, jpiType,
                                jpiSize, jpiAbs, jpiFloor, jpiCeiling, jpiDouble, jpiKeyValue,
                                jpiLast}
                       then Inr (item t CNone)
                       else if t = jpiKey \<or> t = jpiString \<or> t = jpiVariable then
                         (case read_int32 buf (base0 + pos) of
                            Inl e \<Rightarrow> Inl e
                          | Inr datalen \<Rightarrow> Inr (item t (CValue (base0 + (pos + 4)) datalen)))
                       else if t = jpiNumeric \<or> t = jpiBool then
                         Inr (item t (CValue (base0 + pos) 0))
                       else if t \<in> binary_types then
                         (case read_int32 buf (base0 + pos) of
                            Inl e \<Rightarrow> Inl e
                          | Inr left \<Rightarrow>
                             (case read_int32 buf (base0 + (pos + 4)) of
                                Inl e \<Rightarrow> Inl e
                              | Inr right \<Rightarrow> Inr (item t (CArgs left right))))
                       else if t = jpiLikeRegex then
                         (case read_uint32 buf (base0 + pos) of
                            Inl e \<Rightarrow> Inl e
                          | Inr flags \<Rightarrow>
                             (case read_int32 buf (base0 + (pos + 4)) of
                                Inl e \<Rightarrow> Inl e
                              | Inr expr \<Rightarrow>
                                 (case read_int32 buf (base0 + (pos + 8)) of
                                    Inl e \<Rightarrow> Inl e
                                  | Inr patternlen \<Rightarrow>
                                      Inr (item t (CLikeRegex expr (base0 + (pos + 12))
                                                     patternlen flags)))))
                       else if t \<in> {jpiNot, jpiExists, jpiIsUnknown, jpiPlus, jpiMinus,
                                     jpiFilter, jpiDatetime, jpiArray} then
                         (case read_int32 buf (base0 + pos) of
                            Inl e \<Rightarrow> Inl e
                          | Inr arg \<Rightarrow> Inr (item t (CArg arg)))
                       else if t = jpiIndexArray then
                         (case read_int32 buf (base0 + pos) of
                            Inl e \<Rightarrow> Inl e
                          | Inr nelems \<Rightarrow> Inr (item t (CArray nelems (base0 + (pos + 4)))))
                       else if t = jpiAny then
                         (case read_uint32 buf (base0 + pos) of
                            Inl e \<Rightarrow> Inl e
                          | Inr anyfirst \<Rightarrow>
                             (case read_uint32 buf (base0 + (pos + 4)) of
                                Inl e \<Rightarrow> Inl e
                              | Inr anylast \<Rightarrow> Inr (item t (CAnybounds anyfirst anylast))))
                       else if t = jpiSequence then
                         (case read_int32 buf (base0 + pos) of
                            Inl e \<Rightarrow> Inl e
                          | Inr nelems \<Rightarrow> Inr (item t (CSequence nelems (base0 + (pos + 4)))))
                       else if t = jpiObject then
                         (case read_int32 buf (base0 + pos) of
                            Inl e \<Rightarrow> Inl e
                          | Inr nfields \<Rightarrow> Inr (item t (CObject nfields (base0 + (pos + 4)))))
                       else Inl UnrecognizedItemType))))"

definition jspInit :: "string \<Rightarrow> error + JsonPathItem" where
  "jspInit js_data = jspInitByBuffer js_data 0 0"

text \<open>
  Modelled from the spec: \<^verbatim>\<open>jspHasNext\<close> is a macro of \<^verbatim>\<open>utils/jsonpath.h\<close>; the
  spec reads a \<^verbatim>\<open>next\<close> offset of 0 as absent and any other as a positive displacement.
\<close>

definition jspHasNext :: "JsonPathItem \<Rightarrow> bool" where
  "jspHasNext v = (nextPos v > 0)"

text \<open>
  The accessors. Their \<^verbatim>\<open>Assert\<close>s on the item type are compiled out of a production
  build and are not part of the model; an accessor applied to an item whose union holds
  another member reads that member's bytes in C and is \<open>UndefinedBehaviour\<close> here.
\<close>

definition jspGetArg :: "string \<Rightarrow> JsonPathItem \<Rightarrow> error + JsonPathItem" where
  "jspGetArg buf v =
     (case content v of CArg arg \<Rightarrow> jspInitByBuffer buf (base v) arg
      | _ \<Rightarrow> Inl UndefinedBehaviour)"

definition jspGetNext :: "string \<Rightarrow> JsonPathItem \<Rightarrow> error + JsonPathItem option" where
  "jspGetNext buf v =
     (if jspHasNext v
      then (case jspInitByBuffer buf (base v) (nextPos v) of
              Inl e \<Rightarrow> Inl e
            | Inr a \<Rightarrow> Inr (Some a))
      else Inr None)"

definition jspGetLeftArg :: "string \<Rightarrow> JsonPathItem \<Rightarrow> error + JsonPathItem" where
  "jspGetLeftArg buf v =
     (case content v of CArgs left right \<Rightarrow> jspInitByBuffer buf (base v) left
      | _ \<Rightarrow> Inl UndefinedBehaviour)"

definition jspGetRightArg :: "string \<Rightarrow> JsonPathItem \<Rightarrow> error + JsonPathItem" where
  "jspGetRightArg buf v =
     (case content v of CArgs left right \<Rightarrow> jspInitByBuffer buf (base v) right
      | _ \<Rightarrow> Inl UndefinedBehaviour)"

definition jspGetBool :: "string \<Rightarrow> JsonPathItem \<Rightarrow> error + bool" where
  "jspGetBool buf v =
     (case content v of
        CValue data datalen \<Rightarrow>
          (case read_byte buf data of Inl e \<Rightarrow> Inl e | Inr b \<Rightarrow> Inr (b \<noteq> 0))
      | _ \<Rightarrow> Inl UndefinedBehaviour)"

text \<open>
  \<^verbatim>\<open>jspGetNumeric\<close> and \<^verbatim>\<open>jspGetString\<close> return a pointer: the buffer from that byte
  on. The string's length is \<^verbatim>\<open>datalen\<close>; as a C string it ends at its first zero byte.
\<close>

definition jspGetNumeric :: "string \<Rightarrow> JsonPathItem \<Rightarrow> error + string" where
  "jspGetNumeric buf v =
     (case content v of
        CValue data datalen \<Rightarrow>
          (if 0 \<le> data \<and> data \<le> len buf then Inr (drop (nat data) buf)
           else Inl UndefinedBehaviour)
      | _ \<Rightarrow> Inl UndefinedBehaviour)"

definition jspGetString :: "string \<Rightarrow> JsonPathItem \<Rightarrow> error + (string \<times> int)" where
  "jspGetString buf v =
     (case content v of
        CValue data datalen \<Rightarrow>
          (if 0 \<le> data \<and> data \<le> len buf then Inr (drop (nat data) buf, datalen)
           else Inl UndefinedBehaviour)
      | _ \<Rightarrow> Inl UndefinedBehaviour)"

definition cstring :: "string \<Rightarrow> string" where
  "cstring p = takeWhile (\<lambda>c. c \<noteq> CHR 0x00) p"

definition jspGetArraySubscript ::
    "string \<Rightarrow> JsonPathItem \<Rightarrow> int \<Rightarrow> error + (JsonPathItem \<times> JsonPathItem option)" where
  "jspGetArraySubscript buf v i =
     (case content v of
        CArray nelems elems \<Rightarrow>
          (case read_int32 buf (elems + 8 * i) of
             Inl e \<Rightarrow> Inl e
           | Inr from \<Rightarrow>
              (case jspInitByBuffer buf (base v) from of
                 Inl e \<Rightarrow> Inl e
               | Inr fromItem \<Rightarrow>
                  (case read_int32 buf (elems + 8 * i + 4) of
                     Inl e \<Rightarrow> Inl e
                   | Inr to \<Rightarrow>
                      (if to = 0 then Inr (fromItem, None)
                       else (case jspInitByBuffer buf (base v) to of
                               Inl e \<Rightarrow> Inl e
                             | Inr toItem \<Rightarrow> Inr (fromItem, Some toItem))))))
      | _ \<Rightarrow> Inl UndefinedBehaviour)"

definition jspGetSequenceElement :: "string \<Rightarrow> JsonPathItem \<Rightarrow> int \<Rightarrow> error + JsonPathItem" where
  "jspGetSequenceElement buf v i =
     (case content v of
        CSequence nelems elems \<Rightarrow>
          (case read_int32 buf (elems + 4 * i) of
             Inl e \<Rightarrow> Inl e
           | Inr elem \<Rightarrow> jspInitByBuffer buf (base v) elem)
      | _ \<Rightarrow> Inl UndefinedBehaviour)"

definition jspGetObjectField ::
    "string \<Rightarrow> JsonPathItem \<Rightarrow> int \<Rightarrow> error + (JsonPathItem \<times> JsonPathItem)" where
  "jspGetObjectField buf v i =
     (case content v of
        CObject nfields ofields \<Rightarrow>
          (case read_int32 buf (ofields + 8 * i) of
             Inl e \<Rightarrow> Inl e
           | Inr key \<Rightarrow>
              (case jspInitByBuffer buf (base v) key of
                 Inl e \<Rightarrow> Inl e
               | Inr keyItem \<Rightarrow>
                  (case read_int32 buf (ofields + 8 * i + 4) of
                     Inl e \<Rightarrow> Inl e
                   | Inr val \<Rightarrow>
                      (case jspInitByBuffer buf (base v) val of
                         Inl e \<Rightarrow> Inl e
                       | Inr valItem \<Rightarrow> Inr (keyItem, valItem)))))
      | _ \<Rightarrow> Inl UndefinedBehaviour)"

subsection \<open>The printer\<close>

definition jspOperationName :: "JsonPathItemType \<Rightarrow> error + string" where
  "jspOperationName t =
     (if t = jpiAnd then Inr ''&&''
      else if t = jpiOr then Inr ''||''
      else if t = jpiEqual then Inr ''==''
      else if t = jpiNotEqual then Inr ''!=''
      else if t = jpiLess then Inr ''<''
      else if t = jpiGreater then Inr ''>''
      else if t = jpiLessOrEqual then Inr ''<=''
      else if t = jpiGreaterOrEqual then Inr ''>=''
      else if t = jpiPlus \<or> t = jpiAdd then Inr ''+''
      else if t = jpiMinus \<or> t = jpiSub then Inr ''-''
      else if t = jpiMul then Inr ''*''
      else if t = jpiDiv then Inr ''/''
      else if t = jpiMod then Inr ''%''
      else if t = jpiStartsWith then Inr ''starts with''
      else if t = jpiLikeRegex then Inr ''like_regex''
      else if t = jpiType then Inr ''type''
      else if t = jpiSize then Inr ''size''
      else if t = jpiKeyValue then Inr ''keyvalue''
      else if t = jpiDouble then Inr ''double''
      else if t = jpiAbs then Inr ''abs''
      else if t = jpiFloor then Inr ''floor''
      else if t = jpiCeiling then Inr ''ceiling''
      else if t = jpiDatetime then Inr ''datetime''
      else Inl UnrecognizedItemType)"

definition operationPriority :: "JsonPathItemType \<Rightarrow> int" where
  "operationPriority op =
     (if op = jpiSequence then - 1
      else if op = jpiOr then 0
      else if op = jpiAnd then 1
      else if op \<in> {jpiEqual, jpiNotEqual, jpiLess, jpiGreater, jpiLessOrEqual,
                     jpiGreaterOrEqual, jpiStartsWith} then 2
      else if op \<in> {jpiAdd, jpiSub} then 3
      else if op \<in> {jpiMul, jpiDiv, jpiMod} then 4
      else if op \<in> {jpiPlus, jpiMinus} then 5
      else 6)"

text \<open>
  Modelled from the spec: \<^verbatim>\<open>escape_json\<close> is defined in \<^verbatim>\<open>utils/adt/json.c\<close>, not in
  this file. The spec says that literals are escaped by the standard rules of JSON
  strings: the text stands between double quotes; a double quote and a backslash get a
  backslash before them; backspace, form feed, newline, carriage return and tab are
  written \<^verbatim>\<open>\b \f \n \r \t\<close>; any other character below the space is written
  \<^verbatim>\<open>\u00XX\<close>. The argument is a C string and ends at its first zero byte.
\<close>

definition hex_digit :: "nat \<Rightarrow> char" where
  "hex_digit n = ''0123456789abcdef'' ! (n mod 16)"

definition escape_json_char :: "char \<Rightarrow> string" where
  "escape_json_char c =
     (if c = CHR 0x08 then [CHR 0x5C, CHR ''b'']
      else if c = CHR 0x0C then [CHR 0x5C, CHR ''f'']
      else if c = CHR 0x0A then [CHR 0x5C, CHR ''n'']
      else if c = CHR 0x0D then [CHR 0x5C, CHR ''r'']
      else if c = CHR 0x09 then [CHR 0x5C, CHR ''t'']
      else if c = CHR 0x22 then [CHR 0x5C, CHR 0x22]
      else if c = CHR 0x5C then [CHR 0x5C, CHR 0x5C]
      else if (of_char c :: nat) < 32
        then [CHR 0x5C, CHR ''u'', CHR ''0'', CHR ''0'',
              hex_digit (of_char c div 16), hex_digit (of_char c)]
      else [c])"

definition escape_json :: "string \<Rightarrow> string" where
  "escape_json str = [CHR 0x22] @ concat (map escape_json_char (cstring str)) @ [CHR 0x22]"

text \<open>\<^verbatim>\<open>appendStringInfo(buf, "%u", n)\<close>: the decimal digits of an unsigned number.\<close>

function uint_to_string :: "int \<Rightarrow> string" where
  "uint_to_string n =
     (if n < 10 then [char_of (48 + n)]
      else uint_to_string (n div 10) @ [char_of (48 + n mod 10)])"
  by pat_completeness auto
termination
  by (relation "measure nat") auto

definition PG_UINT32_MAX :: int where
  "PG_UINT32_MAX = 4294967295"

text \<open>
  Modelled from the spec: the bits of the regular expression flags are declared in
  \<^verbatim>\<open>utils/jsonpath.h\<close>; they are taken in the order the printer tests them, from bit 0.
\<close>

definition JSP_REGEX_ICASE :: int where "JSP_REGEX_ICASE = 1"
definition JSP_REGEX_DOTALL :: int where "JSP_REGEX_DOTALL = 2"
definition JSP_REGEX_MLINE :: int where "JSP_REGEX_MLINE = 4"
definition JSP_REGEX_WSPACE :: int where "JSP_REGEX_WSPACE = 8"
definition JSP_REGEX_QUOTE :: int where "JSP_REGEX_QUOTE = 16"

definition has_flag :: "int \<Rightarrow> int \<Rightarrow> bool" where
  "has_flag flags b = ((flags div b) mod 2 = 1)"

text \<open>
  The printer returns the text that the C function appends to its \<^verbatim>\<open>StringInfo\<close>.
  \<open>self\<close> is the recursive call \<^verbatim>\<open>printJsonPathItem(buf, ...)\<close> with the stack that is
  left; \<open>numeric_out\<close> is the server's formatting of a numeric, given the bytes at the
  pointer \<^verbatim>\<open>jspGetNumeric\<close> returns. The loops run from \<open>i\<close> for \<open>k\<close> more rounds.
\<close>

type_synonym print_fun = "string \<Rightarrow> JsonPathItem \<Rightarrow> bool \<Rightarrow> bool \<Rightarrow> error + string"

fun print_subscripts :: "print_fun \<Rightarrow> string \<Rightarrow> JsonPathItem \<Rightarrow> int \<Rightarrow> nat \<Rightarrow> error + string" where
  "print_subscripts self buf v i 0 = Inr []"
| "print_subscripts self buf v i (Suc k) =
    (case jspGetArraySubscript buf v i of
       Inl e \<Rightarrow> Inl e
     | Inr (from, to) \<Rightarrow>
        (case self buf from False (type from = jpiSequence) of
           Inl e \<Rightarrow> Inl e
         | Inr s1 \<Rightarrow>
            (case (case to of
                     None \<Rightarrow> Inr []
                   | Some a \<Rightarrow>
                      (case self buf a False (type a = jpiSequence) of
                         Inl e \<Rightarrow> Inl e
                       | Inr s2 \<Rightarrow> Inr ('' to '' @ s2))) of
               Inl e \<Rightarrow> Inl e
             | Inr s2 \<Rightarrow>
                (case print_subscripts self buf v (i + 1) k of
                   Inl e \<Rightarrow> Inl e
                 | Inr rest \<Rightarrow> Inr ((if i \<noteq> 0 then '','' else []) @ s1 @ s2 @ rest)))))"

fun print_elems :: "print_fun \<Rightarrow> string \<Rightarrow> JsonPathItem \<Rightarrow> int \<Rightarrow> nat \<Rightarrow> error + string" where
  "print_elems self buf v i 0 = Inr []"
| "print_elems self buf v i (Suc k) =
    (case jspGetSequenceElement buf v i of
       Inl e \<Rightarrow> Inl e
     | Inr elem \<Rightarrow>
        (case self buf elem False (type elem = jpiSequence) of
           Inl e \<Rightarrow> Inl e
         | Inr s1 \<Rightarrow>
            (case print_elems self buf v (i + 1) k of
               Inl e \<Rightarrow> Inl e
             | Inr rest \<Rightarrow> Inr ((if i \<noteq> 0 then '', '' else []) @ s1 @ rest))))"

fun print_fields :: "print_fun \<Rightarrow> string \<Rightarrow> JsonPathItem \<Rightarrow> int \<Rightarrow> nat \<Rightarrow> error + string" where
  "print_fields self buf v i 0 = Inr []"
| "print_fields self buf v i (Suc k) =
    (case jspGetObjectField buf v i of
       Inl e \<Rightarrow> Inl e
     | Inr (key, val) \<Rightarrow>
        (case self buf key False False of
           Inl e \<Rightarrow> Inl e
         | Inr s1 \<Rightarrow>
            (case self buf val False (type val = jpiSequence) of
               Inl e \<Rightarrow> Inl e
             | Inr s2 \<Rightarrow>
                (case print_fields self buf v (i + 1) k of
                   Inl e \<Rightarrow> Inl e
                 | Inr rest \<Rightarrow>
                     Inr ((if i \<noteq> 0 then '', '' else []) @ s1 @ '': '' @ s2 @ rest)))))"

definition print_item ::
    "print_fun \<Rightarrow> (string \<Rightarrow> string) \<Rightarrow> string \<Rightarrow> JsonPathItem \<Rightarrow> bool \<Rightarrow> bool \<Rightarrow> error + string"
where
  "print_item self numeric_out buf v inKey printBracketes =
    (let t = type v;
         lp = (if printBracketes then ''('' else []);
         rp = (if printBracketes then '')'' else [])
     in
     case
      (if t = jpiNull then Inr ''null''
       else if t = jpiKey then
         (case jspGetString buf v of
            Inl e \<Rightarrow> Inl e
          | Inr (s, datalen) \<Rightarrow> Inr ((if inKey then ''.'' else []) @ escape_json s))
       else if t = jpiString then
         (case jspGetString buf v of
            Inl e \<Rightarrow> Inl e
          | Inr (s, datalen) \<Rightarrow> Inr (escape_json s))
       else if t = jpiVariable then
         (case jspGetString buf v of
            Inl e \<Rightarrow> Inl e
          | Inr (s, datalen) \<Rightarrow> Inr (''$'' @ escape_json s))
       else if t = jpiNumeric then
         (case jspGetNumeric buf v of
            Inl e \<Rightarrow> Inl e
          | Inr n \<Rightarrow>
              Inr ((if jspHasNext v then ''('' else []) @ numeric_out n
                   @ (if jspHasNext v then '')'' else [])))
       else if t = jpiBool then
         (case jspGetBool buf v of
            Inl e \<Rightarrow> Inl e
          | Inr b \<Rightarrow> Inr (if b then ''true'' else ''false''))
       else if t \<in> binary_types then
         (case jspGetLeftArg buf v of
            Inl e \<Rightarrow> Inl e
          | Inr elem \<Rightarrow>
             (case self buf elem False
                     (operationPriority (type elem) \<le> operationPriority (type v)) of
                Inl e \<Rightarrow> Inl e
              | Inr l \<Rightarrow>
                 (case jspOperationName (type v) of
                    Inl e \<Rightarrow> Inl e
                  | Inr opname \<Rightarrow>
                     (case jspGetRightArg buf v of
                        Inl e \<Rightarrow> Inl e
                      | Inr elem \<Rightarrow>
                         (case self buf elem False
                                 (operationPriority (type elem)
                                    \<le> operationPriority (type v)) of
                            Inl e \<Rightarrow> Inl e
                          | Inr r \<Rightarrow>
                              Inr (lp @ l @ '' '' @ opname @ '' '' @ r @ rp))))))
       else if t = jpiLikeRegex then
         (case content v of
            CLikeRegex expr pattern patternlen flags \<Rightarrow>
             (case jspInitByBuffer buf (base v) expr of
                Inl e \<Rightarrow> Inl e
              | Inr elem \<Rightarrow>
                 (case self buf elem False
                         (operationPriority (type elem) \<le> operationPriority (type v)) of
                    Inl e \<Rightarrow> Inl e
                  | Inr l \<Rightarrow>
                     (if 0 \<le> pattern \<and> pattern \<le> len buf
                      then Inr (lp @ l @ '' like_regex ''
                                @ escape_json (drop (nat pattern) buf)
                                @ (if flags \<noteq> 0
                                   then '' flag '' @ [CHR 0x22]
                                        @ (if has_flag flags JSP_REGEX_ICASE then ''i'' else [])
                                        @ (if has_flag flags JSP_REGEX_DOTALL then ''s'' else [])
                                        @ (if has_flag flags JSP_REGEX_MLINE then ''m'' else [])
                                        @ (if has_flag flags JSP_REGEX_WSPACE then ''x'' else [])
                                        @ (if has_flag flags JSP_REGEX_QUOTE then ''q'' else [])
                                        @ [CHR 0x22]
                                   else [])
                                @ rp)
                      else Inl UndefinedBehaviour)))
          | _ \<Rightarrow> Inl UndefinedBehaviour)
       else if t = jpiPlus \<or> t = jpiMinus then
         (case jspGetArg buf v of
            Inl e \<Rightarrow> Inl e
          | Inr elem \<Rightarrow>
             (case self buf elem False
                     (operationPriority (type elem) \<le> operationPriority (type v)) of
                Inl e \<Rightarrow> Inl e
              | Inr a \<Rightarrow> Inr (lp @ (if t = jpiPlus then ''+'' else ''-'') @ a @ rp)))
       else if t = jpiFilter then
         (case jspGetArg buf v of
            Inl e \<Rightarrow> Inl e
          | Inr elem \<Rightarrow>
             (case self buf elem False False of
                Inl e \<Rightarrow> Inl e
              | Inr a \<Rightarrow> Inr (''?('' @ a @ '')'')))
       else if t = jpiNot then
         (case jspGetArg buf v of
            Inl e \<Rightarrow> Inl e
          | Inr elem \<Rightarrow>
             (case self buf elem False False of
                Inl e \<Rightarrow> Inl e
              | Inr a \<Rightarrow> Inr (''!('' @ a @ '')'')))
       else if t = jpiIsUnknown then
         (case jspGetArg buf v of
            Inl e \<Rightarrow> Inl e
          | Inr elem \<Rightarrow>
             (case self buf elem False False of
                Inl e \<Rightarrow> Inl e
              | Inr a \<Rightarrow> Inr (''('' @ a @ '') is unknown'')))
       else if t = jpiExists then
         (case jspGetArg buf v of
            Inl e \<Rightarrow> Inl e
          | Inr elem \<Rightarrow>
             (case self buf elem False False of
                Inl e \<Rightarrow> Inl e
              | Inr a \<Rightarrow> Inr (''exists ('' @ a @ '')'')))
       else if t = jpiCurrent then Inr ''@''
       else if t = jpiRoot then Inr ''$''
       else if t = jpiLast then Inr ''last''
       else if t = jpiAnyArray then Inr ''[*]''
       else if t = jpiAnyKey then Inr ((if inKey then ''.'' else []) @ ''*'')
       else if t = jpiIndexArray then
         (case content v of
            CArray nelems elems \<Rightarrow>
             (case print_subscripts self buf v 0 (nat nelems) of
                Inl e \<Rightarrow> Inl e
              | Inr a \<Rightarrow> Inr (''['' @ a @ '']''))
          | _ \<Rightarrow> Inl UndefinedBehaviour)
       else if t = jpiAny then
         (case content v of
            CAnybounds anyfirst anylast \<Rightarrow>
              Inr ((if inKey then ''.'' else [])
                   @ (if anyfirst = 0 \<and> anylast = PG_UINT32_MAX then ''**''
                      else if anyfirst = anylast then
                        (if anyfirst = PG_UINT32_MAX then ''**{last}''
                         else ''**{'' @ uint_to_string anyfirst @ ''}'')
                      else if anyfirst = PG_UINT32_MAX then
                        ''**{last to '' @ uint_to_string anylast @ ''}''
                      else if anylast = PG_UINT32_MAX then
                        ''**{'' @ uint_to_string anyfirst @ '' to last}''
                      else ''**{'' @ uint_to_string anyfirst @ '' to ''
                           @ uint_to_string anylast @ ''}''))
          | _ \<Rightarrow> Inl UndefinedBehaviour)
       else if t = jpiType then Inr ''.type()''
       else if t = jpiSize then Inr ''.size()''
       else if t = jpiAbs then Inr ''.abs()''
       else if t = jpiFloor then Inr ''.floor()''
       else if t = jpiCeiling then Inr ''.ceiling()''
       else if t = jpiDouble then Inr ''.double()''
       else if t = jpiDatetime then
         (case content v of
            CArg arg \<Rightarrow>
             (if arg \<noteq> 0 then
                (case jspGetArg buf v of
                   Inl e \<Rightarrow> Inl e
                 | Inr elem \<Rightarrow>
                    (case self buf elem False False of
                       Inl e \<Rightarrow> Inl e
                     | Inr a \<Rightarrow> Inr (''.datetime('' @ a @ '')'')))
              else Inr (''.datetime('' @ '')''))
          | _ \<Rightarrow> Inl UndefinedBehaviour)
       else if t = jpiKeyValue then Inr ''.keyvalue()''
       else if t = jpiSequence then
         (case content v of
            CSequence nelems elems \<Rightarrow>
             (case print_elems self buf v 0 (nat nelems) of
                Inl e \<Rightarrow> Inl e
              | Inr a \<Rightarrow>
                  Inr ((if printBracketes \<or> jspHasNext v then ''('' else []) @ a
                       @ (if printBracketes \<or> jspHasNext v then '')'' else [])))
          | _ \<Rightarrow> Inl UndefinedBehaviour)
       else if t = jpiArray then
         (case content v of
            CArg arg \<Rightarrow>
             (if arg \<noteq> 0 then
                (case jspGetArg buf v of
                   Inl e \<Rightarrow> Inl e
                 | Inr elem \<Rightarrow>
                    (case self buf elem False False of
                       Inl e \<Rightarrow> Inl e
                     | Inr a \<Rightarrow> Inr (''['' @ a @ '']'')))
              else Inr (''['' @ '']''))
          | _ \<Rightarrow> Inl UndefinedBehaviour)
       else if t = jpiObject then
         (case content v of
            CObject nfields ofields \<Rightarrow>
             (case print_fields self buf v 0 (nat nfields) of
                Inl e \<Rightarrow> Inl e
              | Inr a \<Rightarrow> Inr (''{'' @ a @ ''}''))
          | _ \<Rightarrow> Inl UndefinedBehaviour)
       else Inl UnrecognizedItemType)
     of
       Inl e \<Rightarrow> Inl e
     | Inr s \<Rightarrow>
        (case jspGetNext buf v of
           Inl e \<Rightarrow> Inl e
         | Inr None \<Rightarrow> Inr s
         | Inr (Some elem) \<Rightarrow>
            (case self buf elem True True of
               Inl e \<Rightarrow> Inl e
             | Inr rest \<Rightarrow> Inr (s @ rest))))"

text \<open>
  \<^verbatim>\<open>printJsonPathItem\<close> starts with \<^verbatim>\<open>check_stack_depth()\<close>; its first argument is
  the number of nested calls the stack still allows, as for the encoder.
\<close>

fun printJsonPathItem ::
    "nat \<Rightarrow> (string \<Rightarrow> string) \<Rightarrow> string \<Rightarrow> JsonPathItem \<Rightarrow> bool \<Rightarrow> bool \<Rightarrow> error + string"
where
  "printJsonPathItem 0 numeric_out buf v inKey printBracketes = Inl StackDepthExceeded"
| "printJsonPathItem (Suc d) numeric_out buf v inKey printBracketes =
     print_item (printJsonPathItem d numeric_out) numeric_out buf v inKey printBracketes"

subsection \<open>Input and output functions\<close>

text \<open>
  Modelled from the spec: the layout of \<^verbatim>\<open>JsonPath\<close> and the bits of its header are
  declared in \<^verbatim>\<open>utils/jsonpath.h\<close>. The header word holds the version and two flags,
  lax mode and enabled extensions; they are three fields here. The source says of the
  version that only version 1 is supported.
\<close>

record JsonPath =
  vl_len :: int
  header_version :: nat
  header_lax :: bool
  header_ext :: bool
  js_data :: string

definition JSONPATH_VERSION :: nat where
  "JSONPATH_VERSION = 1"

text \<open>
  The result of the parser, \<^verbatim>\<open>JsonPathParseResult\<close>. The parser itself
  (\<^verbatim>\<open>parsejsonpath\<close>) is generated from a grammar that is not part of this file: it is a
  parameter, which raises an error, returns no result, or returns a parse tree.
\<close>

datatype JsonPathParseResult =
  ParseResult (pr_expr: JsonPathParseItem) (pr_lax: bool) (pr_ext: bool)

type_synonym parser = "string \<Rightarrow> error + JsonPathParseResult option"

definition jsonPathFromCstring :: "parser \<Rightarrow> nat \<Rightarrow> string \<Rightarrow> error + JsonPath" where
  "jsonPathFromCstring parsejsonpath depth inp =
     (case parsejsonpath inp of
        Inl e \<Rightarrow> Inl e
      | Inr jsonpath \<Rightarrow>
         (let buf = appendStringInfoSpaces [] JSONPATH_HDRSZ
          in case jsonpath of
               None \<Rightarrow> Inl InvalidInputSyntax
             | Some r \<Rightarrow>
                (case flattenJsonPathParseItem depth (pr_ext r) (pr_expr r) 0 False buf of
                   Inl e \<Rightarrow> Inl e
                 | Inr (pos, buf) \<Rightarrow>
                     Inr \<lparr>vl_len = len buf, header_version = JSONPATH_VERSION,
                          header_lax = pr_lax r, header_ext = pr_ext r,
                          js_data = drop (nat JSONPATH_HDRSZ) buf\<rparr>)))"

definition jsonPathToCstring :: "nat \<Rightarrow> (string \<Rightarrow> string) \<Rightarrow> JsonPath \<Rightarrow> error + string" where
  "jsonPathToCstring depth numeric_out inp =
     (let out = (if header_ext inp then ''pg '' else []);
          out = out @ (if \<not> header_lax inp then ''strict '' else [])
      in case jspInit (js_data inp) of
           Inl e \<Rightarrow> Inl e
         | Inr v \<Rightarrow>
            (case printJsonPathItem depth numeric_out (js_data inp) v False
                    (type v \<noteq> jpiSequence) of
               Inl e \<Rightarrow> Inl e
             | Inr s \<Rightarrow> Inr (out @ s)))"

definition jsonpath_in :: "parser \<Rightarrow> nat \<Rightarrow> string \<Rightarrow> error + JsonPath" where
  "jsonpath_in parsejsonpath depth inp = jsonPathFromCstring parsejsonpath depth inp"

definition jsonpath_out :: "nat \<Rightarrow> (string \<Rightarrow> string) \<Rightarrow> JsonPath \<Rightarrow> error + string" where
  "jsonpath_out depth numeric_out inp = jsonPathToCstring depth numeric_out inp"

text \<open>
  \<^verbatim>\<open>jsonpath_recv\<close> reads a message: the bytes that are left from the cursor on.
  \<^verbatim>\<open>pq_getmsgint(buf, 1)\<close> takes one byte and fails when none is left;
  \<^verbatim>\<open>pq_getmsgtext\<close> takes the rest and converts it from the client's encoding, which is
  the parameter \<open>pg_client_to_server\<close>.
\<close>

definition pq_getmsgint1 :: "string \<Rightarrow> error + (nat \<times> string)" where
  "pq_getmsgint1 msg =
     (case msg of [] \<Rightarrow> Inl InsufficientData | b # rest \<Rightarrow> Inr (of_char b, rest))"

definition jsonpath_recv ::
    "parser \<Rightarrow> (string \<Rightarrow> error + string) \<Rightarrow> nat \<Rightarrow> string \<Rightarrow> error + JsonPath" where
  "jsonpath_recv parsejsonpath pg_client_to_server depth msg =
     (case pq_getmsgint1 msg of
        Inl e \<Rightarrow> Inl e
      | Inr (version, rest) \<Rightarrow>
         (if version = JSONPATH_VERSION
          then (case pg_client_to_server rest of
                  Inl e \<Rightarrow> Inl e
                | Inr str \<Rightarrow> jsonPathFromCstring parsejsonpath depth str)
          else Inl (UnsupportedVersion version)))"

definition jsonpath_send :: "nat \<Rightarrow> (string \<Rightarrow> string) \<Rightarrow> JsonPath \<Rightarrow> error + string" where
  "jsonpath_send depth numeric_out inp =
     (case jsonPathToCstring depth numeric_out inp of
        Inl e \<Rightarrow> Inl e
      | Inr jtext \<Rightarrow> Inr (char_of JSONPATH_VERSION # jtext))"

subsection \<open>The mutability analysis\<close>

datatype JsonPathDatatypeStatus =
    jpdsNonDateTime
  | jpdsUnknownDateTime
  | jpdsDateTimeZoned
  | jpdsDateTimeNonZoned

text \<open>
  \<^verbatim>\<open>varexprs\<close> holds, for each variable, the type that \<^verbatim>\<open>exprType\<close> finds for its
  expression: the OID of the type, from the server's catalog.
\<close>

record JsonPathMutableContext =
  varnames :: "string list"
  varexprs :: "int list"
  current :: JsonPathDatatypeStatus
  lax :: bool
  mutable :: bool

definition DATEOID :: int where "DATEOID = 1082"
definition TIMEOID :: int where "TIMEOID = 1083"
definition TIMESTAMPOID :: int where "TIMESTAMPOID = 1114"
definition TIMESTAMPTZOID :: int where "TIMESTAMPTZOID = 1184"
definition TIMETZOID :: int where "TIMETZOID = 1266"

text \<open>
  \<^verbatim>\<open>strncmp\<close> of the C library, on C strings: at most \<open>n\<close> characters are compared, and
  the end of a string is a zero byte. The result is 0 when no difference is found.
\<close>

fun strncmp :: "string \<Rightarrow> string \<Rightarrow> nat \<Rightarrow> int" where
  "strncmp s1 s2 0 = 0"
| "strncmp s1 s2 (Suc n) =
    (let c1 = (case s1 of [] \<Rightarrow> CHR 0x00 | c # _ \<Rightarrow> c);
         c2 = (case s2 of [] \<Rightarrow> CHR 0x00 | c # _ \<Rightarrow> c)
     in if c1 \<noteq> c2 then of_char c1 - of_char c2
        else if c1 = CHR 0x00 then 0
        else strncmp (tl s1) (tl s2) n)"

text \<open>
  The loop \<^verbatim>\<open>forboth(lc1, cxt->varnames, lc2, cxt->varexprs)\<close> of the case
  \<^verbatim>\<open>jpiVariable\<close>: it ends at the first name that \<^verbatim>\<open>strncmp\<close> does not tell apart
  from the variable's name, and leaves \<open>status\<close> as it is when the lists are exhausted.
\<close>

fun variable_status ::
    "string list \<Rightarrow> int list \<Rightarrow> string \<Rightarrow> nat \<Rightarrow> JsonPathDatatypeStatus \<Rightarrow> JsonPathDatatypeStatus"
where
  "variable_status (varname # names) (varexpr # exprs) name n status =
    (if strncmp varname name n \<noteq> 0 then variable_status names exprs name n status
     else if varexpr = DATEOID \<or> varexpr = TIMEOID \<or> varexpr = TIMESTAMPOID
       then jpdsDateTimeNonZoned
     else if varexpr = TIMETZOID \<or> varexpr = TIMESTAMPTZOID then jpdsDateTimeZoned
     else jpdsNonDateTime)"
| "variable_status names exprs name n status = status"

text \<open>
  The walker has no \<^verbatim>\<open>check_stack_depth()\<close>: it takes no stack bound and has no error
  for it. Its loop follows \<^verbatim>\<open>next\<close> links as long as there are any, so on a buffer
  whose links form a cycle it does not return. The first argument of the model is fuel:
  every round of the loop and every nested call uses one unit, and \<open>None\<close> is the
  result when the fuel does not suffice. \<open>zoned\<close> tells whether
  \<^verbatim>\<open>datetime_format_flags(template, NULL) & DCH_ZONED\<close> is set; that function belongs to
  the server's formatting code.
\<close>

type_synonym 'a walk = "(error + 'a) option"

definition wbind :: "'a walk \<Rightarrow> ('a \<Rightarrow> 'b walk) \<Rightarrow> 'b walk" where
  "wbind m f = (case m of None \<Rightarrow> None | Some (Inl e) \<Rightarrow> Some (Inl e) | Some (Inr x) \<Rightarrow> f x)"

definition wlift :: "error + 'a \<Rightarrow> 'a walk" where
  "wlift r = Some r"

type_synonym walker_fun =
  "string \<Rightarrow> JsonPathItem \<Rightarrow> JsonPathMutableContext \<Rightarrow> JsonPathDatatypeStatus \<Rightarrow>
   (JsonPathDatatypeStatus \<times> JsonPathMutableContext) walk"

text \<open>
  \<open>self buf arg cxt jpdsNonDateTime\<close> is the nested call
  \<^verbatim>\<open>jspIsMutableWalker(&arg, cxt)\<close>, which starts with the status not-a-datetime.
\<close>

fun walker_subscripts ::
    "walker_fun \<Rightarrow> string \<Rightarrow> JsonPathItem \<Rightarrow> JsonPathMutableContext \<Rightarrow> int \<Rightarrow> nat \<Rightarrow>
     JsonPathMutableContext walk"
where
  "walker_subscripts self buf jpi cxt i 0 = Some (Inr cxt)"
| "walker_subscripts self buf jpi cxt i (Suc k) =
    wbind (wlift (jspGetArraySubscript buf jpi i)) (\<lambda>(from, to).
    wbind (case to of
             None \<Rightarrow> Some (Inr cxt)
           | Some a \<Rightarrow> wbind (self buf a cxt jpdsNonDateTime) (\<lambda>(st, cxt). Some (Inr cxt)))
      (\<lambda>cxt.
    wbind (self buf from cxt jpdsNonDateTime) (\<lambda>(st, cxt).
    walker_subscripts self buf jpi cxt (i + 1) k)))"

definition comparison_types :: "JsonPathItemType set" where
  "comparison_types =
     {jpiEqual, jpiNotEqual, jpiLess, jpiGreater, jpiLessOrEqual, jpiGreaterOrEqual}"

definition walker_switch ::
    "walker_fun \<Rightarrow> (string \<Rightarrow> bool) \<Rightarrow> string \<Rightarrow> JsonPathItem \<Rightarrow> JsonPathMutableContext \<Rightarrow>
     JsonPathDatatypeStatus \<Rightarrow> (JsonPathDatatypeStatus \<times> JsonPathMutableContext) walk"
where
  "walker_switch self zoned buf jpi cxt status =
    (let t = type jpi in
     if t = jpiRoot then Some (Inr (status, cxt))
     else if t = jpiCurrent then Some (Inr (current cxt, cxt))
     else if t = jpiFilter then
       (let prevStatus = current cxt;
            cxt = cxt\<lparr>current := status\<rparr>
        in wbind (wlift (jspGetArg buf jpi)) (\<lambda>arg.
           wbind (self buf arg cxt jpdsNonDateTime) (\<lambda>(st, cxt).
           Some (Inr (status, cxt\<lparr>current := prevStatus\<rparr>)))))
     else if t = jpiVariable then
       wbind (wlift (jspGetString buf jpi)) (\<lambda>(name, namelen).
       Some (Inr (variable_status (varnames cxt) (varexprs cxt) name (nat namelen) status, cxt)))
     else if t \<in> comparison_types then
       wbind (wlift (jspGetLeftArg buf jpi)) (\<lambda>arg.
       wbind (self buf arg cxt jpdsNonDateTime) (\<lambda>(leftStatus, cxt).
       wbind (wlift (jspGetRightArg buf jpi)) (\<lambda>arg.
       wbind (self buf arg cxt jpdsNonDateTime) (\<lambda>(rightStatus, cxt).
       Some (Inr (status,
                  if leftStatus \<noteq> jpdsNonDateTime \<and>
                     rightStatus \<noteq> jpdsNonDateTime \<and>
                     (leftStatus = jpdsUnknownDateTime \<or>
                      rightStatus = jpdsUnknownDateTime \<or>
                      leftStatus \<noteq> rightStatus)
                  then cxt\<lparr>mutable := True\<rparr> else cxt))))))
     else if t \<in> {jpiNot, jpiIsUnknown, jpiExists, jpiPlus, jpiMinus} then
       wbind (wlift (jspGetArg buf jpi)) (\<lambda>arg.
       wbind (self buf arg cxt jpdsNonDateTime) (\<lambda>(st, cxt).
       Some (Inr (status, cxt))))
     else if t \<in> {jpiAnd, jpiOr, jpiAdd, jpiSub, jpiMul, jpiDiv, jpiMod, jpiStartsWith} then
       wbind (wlift (jspGetLeftArg buf jpi)) (\<lambda>arg.
       wbind (self buf arg cxt jpdsNonDateTime) (\<lambda>(st, cxt).
       wbind (wlift (jspGetRightArg buf jpi)) (\<lambda>arg.
       wbind (self buf arg cxt jpdsNonDateTime) (\<lambda>(st, cxt).
       Some (Inr (status, cxt))))))
     else if t = jpiIndexArray then
       (case content jpi of
          CArray nelems elems \<Rightarrow>
            wbind (walker_subscripts self buf jpi cxt 0 (nat nelems)) (\<lambda>cxt.
            Some (Inr (if \<not> lax cxt then jpdsNonDateTime else status, cxt)))
        | _ \<Rightarrow> Some (Inl UndefinedBehaviour))
     else if t = jpiAnyArray then
       Some (Inr (if \<not> lax cxt then jpdsNonDateTime else status, cxt))
     else if t = jpiAny then
       (case content jpi of
          CAnybounds anyfirst anylast \<Rightarrow>
            Some (Inr (if anyfirst > 0 then jpdsNonDateTime else status, cxt))
        | _ \<Rightarrow> Some (Inl UndefinedBehaviour))
     else if t = jpiDatetime then
       (case content jpi of
          CArg a \<Rightarrow>
            (if a \<noteq> 0 then
               wbind (wlift (jspGetArg buf jpi)) (\<lambda>arg.
               if type arg \<noteq> jpiString then Some (Inr (jpdsNonDateTime, cxt))
               else wbind (wlift (jspGetString buf arg)) (\<lambda>(template, datalen).
                    if zoned (cstring template) then Some (Inr (jpdsDateTimeZoned, cxt))
                    else Some (Inr (jpdsDateTimeNonZoned, cxt))))
             else Some (Inr (jpdsUnknownDateTime, cxt)))
        | _ \<Rightarrow> Some (Inl UndefinedBehaviour))
     else if t = jpiLikeRegex then
       (case content jpi of
          CLikeRegex expr pattern patternlen flags \<Rightarrow>
            wbind (wlift (jspInitByBuffer buf (base jpi) expr)) (\<lambda>arg.
            wbind (self buf arg cxt jpdsNonDateTime) (\<lambda>(st, cxt).
            Some (Inr (status, cxt))))
        | _ \<Rightarrow> Some (Inl UndefinedBehaviour))
     else if t \<in> {jpiNull, jpiString, jpiNumeric, jpiBool, jpiKey, jpiAnyKey, jpiSubscript,
                   jpiLast, jpiType, jpiSize, jpiAbs, jpiFloor, jpiCeiling, jpiDouble,
                   jpiKeyValue} then
       Some (Inr (jpdsNonDateTime, cxt))
     else Some (Inr (status, cxt)))"

text \<open>
  One round of \<^verbatim>\<open>while (!cxt->mutable)\<close>: the \<^verbatim>\<open>switch\<close>, then the step to the next
  item, where \<open>self\<close> is the rest of the loop.
\<close>

definition walker_round ::
    "walker_fun \<Rightarrow> (string \<Rightarrow> bool) \<Rightarrow> string \<Rightarrow> JsonPathItem \<Rightarrow> JsonPathMutableContext \<Rightarrow>
     JsonPathDatatypeStatus \<Rightarrow> (JsonPathDatatypeStatus \<times> JsonPathMutableContext) walk"
where
  "walker_round self zoned buf jpi cxt status =
    (if mutable cxt then Some (Inr (status, cxt))
     else wbind (walker_switch self zoned buf jpi cxt status) (\<lambda>(status, cxt).
          wbind (wlift (jspGetNext buf jpi)) (\<lambda>nxt.
          case nxt of
            None \<Rightarrow> Some (Inr (status, cxt))
          | Some next \<Rightarrow> self buf next cxt status)))"

fun walker_loop ::
    "nat \<Rightarrow> (string \<Rightarrow> bool) \<Rightarrow> string \<Rightarrow> JsonPathItem \<Rightarrow> JsonPathMutableContext \<Rightarrow>
     JsonPathDatatypeStatus \<Rightarrow> (JsonPathDatatypeStatus \<times> JsonPathMutableContext) walk"
where
  "walker_loop 0 zoned buf jpi cxt status = None"
| "walker_loop (Suc fuel) zoned buf jpi cxt status =
     walker_round (walker_loop fuel zoned) zoned buf jpi cxt status"

definition jspIsMutableWalker ::
    "nat \<Rightarrow> (string \<Rightarrow> bool) \<Rightarrow> string \<Rightarrow> JsonPathItem \<Rightarrow> JsonPathMutableContext \<Rightarrow>
     (JsonPathDatatypeStatus \<times> JsonPathMutableContext) walk"
where
  "jspIsMutableWalker fuel zoned buf jpi cxt = walker_loop fuel zoned buf jpi cxt jpdsNonDateTime"

definition jspIsMutable ::
    "nat \<Rightarrow> (string \<Rightarrow> bool) \<Rightarrow> JsonPath \<Rightarrow> string list \<Rightarrow> int list \<Rightarrow> bool walk" where
  "jspIsMutable fuel zoned path names exprs =
     (let cxt = \<lparr>varnames = names, varexprs = exprs, current = jpdsNonDateTime,
                 lax = header_lax path, mutable = False\<rparr>
      in wbind (wlift (jspInit (js_data path))) (\<lambda>jpi.
         wbind (jspIsMutableWalker fuel zoned (js_data path) jpi cxt) (\<lambda>(st, cxt).
         Some (Inr (mutable cxt)))))"

section \<open>Encoded paths used in the properties\<close>

text \<open>
  The grammar is not part of this file, so a property about a path expression is stated
  on its parse tree. \<open>encode\<close> runs \<^verbatim>\<open>jsonPathFromCstring\<close> with a parser that returns
  the given tree and flags, and with ample stack. \<open>item_chain\<close> lists the items that
  \<^verbatim>\<open>jspGetNext\<close> reaches from an item, with fuel for the length of the chain.
\<close>

definition encode :: "JsonPathParseItem \<Rightarrow> bool \<Rightarrow> bool \<Rightarrow> error + JsonPath" where
  "encode expr lax_mode ext_mode =
     jsonPathFromCstring (\<lambda>s. Inr (Some (ParseResult expr lax_mode ext_mode))) 64 []"

fun item_chain :: "nat \<Rightarrow> string \<Rightarrow> JsonPathItem \<Rightarrow> (error + JsonPathItem list) option" where
  "item_chain 0 buf v = None"
| "item_chain (Suc fuel) buf v =
    (case jspGetNext buf v of
       Inl e \<Rightarrow> Some (Inl e)
     | Inr None \<Rightarrow> Some (Inr [v])
     | Inr (Some a) \<Rightarrow>
        (case item_chain fuel buf a of
           None \<Rightarrow> None
         | Some (Inl e) \<Rightarrow> Some (Inl e)
         | Some (Inr vs) \<Rightarrow> Some (Inr (v # vs))))"

definition path_chain :: "error + JsonPath \<Rightarrow> (error + JsonPathItem list) option" where
  "path_chain r =
     (case r of
        Inl e \<Rightarrow> Some (Inl e)
      | Inr p \<Rightarrow>
         (case jspInit (js_data p) of
            Inl e \<Rightarrow> Some (Inl e)
          | Inr v \<Rightarrow> item_chain 64 (js_data p) v))"

definition chain_types :: "(error + JsonPathItem list) option \<Rightarrow> JsonPathItemType list" where
  "chain_types r = (case r of Some (Inr vs) \<Rightarrow> map type vs | _ \<Rightarrow> [])"


text \<open>
  \<open>print_path\<close> is \<^verbatim>\<open>jsonpath_out\<close> on the result of \<open>encode\<close>; no path below holds
  a numeric, so the formatting of numerics is any function.
\<close>

definition print_path :: "error + JsonPath \<Rightarrow> error + string" where
  "print_path r =
     (case r of Inl e \<Rightarrow> Inl e | Inr p \<Rightarrow> jsonpath_out 64 (\<lambda>n. ''0'') p)"

definition is_mutable ::
    "error + JsonPath \<Rightarrow> string list \<Rightarrow> int list \<Rightarrow> bool walk" where
  "is_mutable r names exprs =
     (case r of
        Inl e \<Rightarrow> Some (Inl e)
      | Inr p \<Rightarrow> jspIsMutable 64 (\<lambda>template. False) p names exprs)"

text \<open>
  \<^verbatim>\<open>$.a[*].type()\<close>, whose items the source gives as
  \<^verbatim>\<open>$ => .a => [*] => .type()\<close>.
\<close>

definition path_a_any_type :: JsonPathParseItem where
  "path_a_any_type =
     ParseItem jpiRoot VNone (Some (
     ParseItem jpiKey (VString ''a'') (Some (
     ParseItem jpiAnyArray VNone (Some (
     ParseItem jpiType VNone None))))))"

text \<open>\<^verbatim>\<open>$a == $c\<close>, a comparison of two variables.\<close>

definition path_var_a_eq_var_c :: JsonPathParseItem where
  "path_var_a_eq_var_c =
     ParseItem jpiEqual
       (VArgs (Some (ParseItem jpiVariable (VString ''a'') None))
              (Some (ParseItem jpiVariable (VString ''c'') None)))
       None"

text \<open>
  \<^verbatim>\<open>$.datetime() == $.datetime()\<close>: both operands of the comparison are datetimes of
  unknown kind. \<^verbatim>\<open>$[last]\<close>: an array subscript whose only index is \<^verbatim>\<open>last\<close>.
\<close>

definition path_datetime_eq_datetime :: JsonPathParseItem where
  "path_datetime_eq_datetime =
     ParseItem jpiEqual
       (VArgs (Some (ParseItem jpiRoot VNone (Some (ParseItem jpiDatetime (VArg None) None))))
              (Some (ParseItem jpiRoot VNone (Some (ParseItem jpiDatetime (VArg None) None)))))
       None"

definition path_root_last :: JsonPathParseItem where
  "path_root_last =
     ParseItem jpiRoot VNone (Some (
     ParseItem jpiIndexArray (VArray [(ParseItem jpiLast VNone None, None)]) None))"

definition encoded_data :: "error + JsonPath \<Rightarrow> string" where
  "encoded_data r = (case r of Inl e \<Rightarrow> [] | Inr p \<Rightarrow> js_data p)"

definition empty_context :: "bool \<Rightarrow> JsonPathMutableContext" where
  "empty_context lax_mode =
     \<lparr>varnames = [], varexprs = [], current = jpdsNonDateTime, lax = lax_mode,
      mutable = False\<rparr>"

text \<open>
  The end of a round of the walker's loop, from \<open>walker_round\<close>: the step to the next
  item with the status and the context that the \<^verbatim>\<open>switch\<close> left.
\<close>

definition walker_next ::
    "walker_fun \<Rightarrow> string \<Rightarrow> JsonPathItem \<Rightarrow> JsonPathMutableContext \<Rightarrow>
     JsonPathDatatypeStatus \<Rightarrow> (JsonPathDatatypeStatus \<times> JsonPathMutableContext) walk"
where
  "walker_next self buf jpi cxt status =
     wbind (wlift (jspGetNext buf jpi)) (\<lambda>nxt.
       case nxt of
         None \<Rightarrow> Some (Inr (status, cxt))
       | Some next \<Rightarrow> self buf next cxt status)"

text \<open>
  The condition of claim C2 in the words of the spec: both sides have some datetime
  status and the two differ, or one side is of unknown kind and the other has a
  concrete status, zoned or non-zoned. \<open>comparison_mutable\<close> is the condition as
  amended: a comparison of two sides of unknown kind is flagged as well.
\<close>

definition concrete_status :: "JsonPathDatatypeStatus \<Rightarrow> bool" where
  "concrete_status s = (s = jpdsDateTimeZoned \<or> s = jpdsDateTimeNonZoned)"

definition spec_comparison_mutable ::
    "JsonPathDatatypeStatus \<Rightarrow> JsonPathDatatypeStatus \<Rightarrow> bool" where
  "spec_comparison_mutable l r =
     ((l \<noteq> jpdsNonDateTime \<and> r \<noteq> jpdsNonDateTime \<and> l \<noteq> r) \<or>
      (l = jpdsUnknownDateTime \<and> concrete_status r) \<or>
      (r = jpdsUnknownDateTime \<and> concrete_status l))"

definition comparison_mutable ::
    "JsonPathDatatypeStatus \<Rightarrow> JsonPathDatatypeStatus \<Rightarrow> bool" where
  "comparison_mutable l r =
     (l \<noteq> jpdsNonDateTime \<and> r \<noteq> jpdsNonDateTime \<and>
      (l \<noteq> r \<or> l = jpdsUnknownDateTime \<or> r = jpdsUnknownDateTime))"

text \<open>
  \<^verbatim>\<open>($.datetime() == $.datetime()).type()\<close>, a comparison with a successor;
  \<^verbatim>\<open>pg [$.datetime() == $.datetime()]\<close>, the same comparison under an array
  constructor; \<^verbatim>\<open>$[last to ($.datetime() == $.datetime())]\<close>, a subscript range whose
  upper bound holds the comparison.
\<close>

definition path_cmp_type :: JsonPathParseItem where
  "path_cmp_type =
     ParseItem jpiEqual
       (VArgs (Some (ParseItem jpiRoot VNone (Some (ParseItem jpiDatetime (VArg None) None))))
              (Some (ParseItem jpiRoot VNone (Some (ParseItem jpiDatetime (VArg None) None)))))
       (Some (ParseItem jpiType VNone None))"

definition path_array_of_cmp :: JsonPathParseItem where
  "path_array_of_cmp = ParseItem jpiArray (VArg (Some path_datetime_eq_datetime)) None"

definition path_root_last_to_cmp :: JsonPathParseItem where
  "path_root_last_to_cmp =
     ParseItem jpiRoot VNone (Some (
     ParseItem jpiIndexArray
       (VArray [(ParseItem jpiLast VNone None, Some path_datetime_eq_datetime)]) None))"

text \<open>
  Paths with keys and the number 2. \<open>path_key k n\<close> is \<^verbatim>\<open>$.k\<close> followed by \<open>n\<close>;
  the numeric is one byte, and \<open>print_path_two\<close> prints with a formatting of numerics
  that writes it as \<^verbatim>\<open>2\<close>. \<open>quoted\<close> puts a text between double quotes.
\<close>

definition path_key :: "string \<Rightarrow> JsonPathParseItem option \<Rightarrow> JsonPathParseItem" where
  "path_key k n = ParseItem jpiRoot VNone (Some (ParseItem jpiKey (VString k) n))"



definition quoted :: "string \<Rightarrow> string" where
  "quoted s = [CHR 0x22] @ s @ [CHR 0x22]"



text \<open>
  \<^verbatim>\<open>($.a * $.b).type() + $.c\<close>, where the method follows the product, and
  \<^verbatim>\<open>$.a * $.b.type() + $.c\<close>, where it follows the key \<^verbatim>\<open>b\<close>. The source's header
  comment shows an operator with a successor, \<^verbatim>\<open>+ => .type()\<close>, as the tree of a
  parenthesized expression followed by a method.
\<close>

definition path_mul_type_plus_c :: JsonPathParseItem where
  "path_mul_type_plus_c =
     ParseItem jpiAdd
       (VArgs (Some (ParseItem jpiMul
                       (VArgs (Some (path_key ''a'' None)) (Some (path_key ''b'' None)))
                       (Some (ParseItem jpiType VNone None))))
              (Some (path_key ''c'' None)))
       None"

definition path_mul_b_type_plus_c :: JsonPathParseItem where
  "path_mul_b_type_plus_c =
     ParseItem jpiAdd
       (VArgs (Some (ParseItem jpiMul
                       (VArgs (Some (path_key ''a'' None))
                              (Some (path_key ''b'' (Some (ParseItem jpiType VNone None)))))
                       None))
              (Some (path_key ''c'' None)))
       None"

text \<open>Printing the root of an encoded path with a given bound on the stack.\<close>

definition print_root :: "nat \<Rightarrow> error + JsonPath \<Rightarrow> error + string" where
  "print_root depth r =
     (case jspInit (encoded_data r) of
        Inl e \<Rightarrow> Inl e
      | Inr v \<Rightarrow> printJsonPathItem depth (\<lambda>n. ''0'') (encoded_data r) v False True)"











section \<open>Properties\<close>

subsection \<open>Evaluation\<close>

text \<open>
  Code equations for the recursive functions that wait for the item, and for the
  encoder the buffer, to be known: a concrete path is then evaluated call by call.
\<close>

lemma flattenJsonPathParseItem_code [code]:
  "flattenJsonPathParseItem 0 ext item nl ias buf = Inl StackDepthExceeded"
  "flattenJsonPathParseItem (Suc d) ext (ParseItem t v n) nl ias [] =
     flatten_item (flattenJsonPathParseItem d) ext (ParseItem t v n) nl ias []"
  "flattenJsonPathParseItem (Suc d) ext (ParseItem t v n) nl ias (b # bs) =
     flatten_item (flattenJsonPathParseItem d) ext (ParseItem t v n) nl ias (b # bs)"
  by simp_all

lemma printJsonPathItem_code [code]:
  "printJsonPathItem 0 nout buf v inKey pb = Inl StackDepthExceeded"
  "printJsonPathItem (Suc d) nout buf \<lparr>type = t, nextPos = n, base = b, content = c\<rparr> inKey pb =
     print_item (printJsonPathItem d nout) nout buf
       \<lparr>type = t, nextPos = n, base = b, content = c\<rparr> inKey pb"
  by simp_all

lemma walker_loop_code [code]:
  "walker_loop 0 zoned buf jpi cxt status = None"
  "walker_loop (Suc fuel) zoned buf \<lparr>type = t, nextPos = n, base = b, content = c\<rparr> cxt status =
     walker_round (walker_loop fuel zoned) zoned buf
       \<lparr>type = t, nextPos = n, base = b, content = c\<rparr> cxt status"
  by simp_all

lemma item_chain_code [code]:
  "item_chain 0 buf v = None"
  "item_chain (Suc fuel) buf \<lparr>type = t, nextPos = n, base = b, content = c\<rparr> =
    (case jspGetNext buf \<lparr>type = t, nextPos = n, base = b, content = c\<rparr> of
       Inl e \<Rightarrow> Some (Inl e)
     | Inr None \<Rightarrow> Some (Inr [\<lparr>type = t, nextPos = n, base = b, content = c\<rparr>])
     | Inr (Some a) \<Rightarrow>
        (case item_chain fuel buf a of
           None \<Rightarrow> None
         | Some (Inl e) \<Rightarrow> Some (Inl e)
         | Some (Inr vs) \<Rightarrow>
             Some (Inr (\<lparr>type = t, nextPos = n, base = b, content = c\<rparr> # vs))))"
  by simp_all

subsection \<open>The version byte of the binary input\<close>

text \<open>
  Claim C9. \<^verbatim>\<open>jsonpath_recv\<close> reads one byte as the version. When it is not the
  supported version, the call fails with the unsupported-version error, whatever the
  parser, the encoding conversion and the rest of the message are: the body is not
  looked at. When it is the supported version, the rest of the message is converted
  and handed to \<^verbatim>\<open>jsonPathFromCstring\<close>.
\<close>

theorem jsonpath_recv_version:
  "(of_char b \<noteq> JSONPATH_VERSION \<longrightarrow>
      jsonpath_recv parsejsonpath pg_client_to_server depth (b # body) =
        Inl (UnsupportedVersion (of_char b))) \<and>
   (of_char b = JSONPATH_VERSION \<longrightarrow>
      jsonpath_recv parsejsonpath pg_client_to_server depth (b # body) =
        (case pg_client_to_server body of
           Inl e \<Rightarrow> Inl e
         | Inr str \<Rightarrow> jsonPathFromCstring parsejsonpath depth str))"
  by (simp add: jsonpath_recv_def pq_getmsgint1_def)

theorem jsonpath_recv_version_witness:
  "jsonpath_recv (\<lambda>s. Inr None) Inr 5 (CHR 0x02 # ''$'') = Inl (UnsupportedVersion 2) \<and>
   jsonpath_recv (\<lambda>s. Inr None) Inr 5 (CHR 0x01 # ''$'') = Inl InvalidInputSyntax"
proof -
  have v2: "(of_char (CHR 0x02) :: nat) \<noteq> JSONPATH_VERSION"
    by (simp add: JSONPATH_VERSION_def)
  have v1: "(of_char (CHR 0x01) :: nat) = JSONPATH_VERSION"
    by (simp add: JSONPATH_VERSION_def)
  have a: "jsonpath_recv (\<lambda>s. Inr None) Inr 5 (CHR 0x02 # ''$'') = Inl (UnsupportedVersion 2)"
    using jsonpath_recv_version [of "CHR 0x02" "\<lambda>s. Inr None" Inr 5 "''$''"] v2 by simp
  have b: "jsonpath_recv (\<lambda>s. Inr None) Inr 5 (CHR 0x01 # ''$'') = Inl InvalidInputSyntax"
    using jsonpath_recv_version [of "CHR 0x01" "\<lambda>s. Inr None" Inr 5 "''$''"] v1
    by (simp add: jsonPathFromCstring_def)
  from a b show ?thesis by simp
qed

subsection \<open>Where an item starts\<close>






































subsection \<open>The example of the source: \<^verbatim>\<open>$.a[*].type()\<close>\<close>

lemma a_any_type_types:
  "chain_types (path_chain (encode path_a_any_type True False)) =
     [jpiRoot, jpiKey, jpiAnyArray, jpiType]"
  by code_simp

lemma a_any_type_text:
  "print_path (encode path_a_any_type True False) =
     Inr (''$.'' @ [CHR 0x22] @ ''a'' @ [CHR 0x22] @ ''[*].type()'')"
  by code_simp

text \<open>
  Claim C8, as stated, fails: the chain has four items, the first of them the root
  \<^verbatim>\<open>$\<close>, and the printer writes the key between double quotes.
\<close>

theorem a_any_type_not_three_items:
  "length (chain_types (path_chain (encode path_a_any_type True False))) \<noteq> 3 \<and>
   print_path (encode path_a_any_type True False) \<noteq> Inr ''$.a[*].type()''"
  using a_any_type_types a_any_type_text by simp

text \<open>
  Claim C8, amended. Encoding \<^verbatim>\<open>$.a[*].type()\<close> yields a chain of four items linked by
  their \<^verbatim>\<open>next\<close> offsets: root, key accessor, wildcard array, type method. Printing it
  gives \<^verbatim>\<open>$."a"[*].type()\<close>.
\<close>

theorem a_any_type_chain_and_text:
  "chain_types (path_chain (encode path_a_any_type True False)) =
     [jpiRoot, jpiKey, jpiAnyArray, jpiType] \<and>
   print_path (encode path_a_any_type True False) =
     Inr (''$.'' @ [CHR 0x22] @ ''a'' @ [CHR 0x22] @ ''[*].type()'')"
  using a_any_type_types a_any_type_text by simp

theorem a_any_type_chain_and_text_witness:
  "length (chain_types (path_chain (encode path_a_any_type True False))) = 4"
  using a_any_type_chain_and_text by simp

subsection \<open>Variables in the mutability analysis\<close>

text \<open>
  Claim C7 on the code. The variable \<^verbatim>\<open>$a\<close> is looked up with \<^verbatim>\<open>strncmp\<close> over the
  length of its own name, so a declared name that only starts with \<^verbatim>\<open>a\<close> is taken
  for it. With \<^verbatim>\<open>ab\<close> declared before \<^verbatim>\<open>a\<close>, the comparison \<^verbatim>\<open>$a == $c\<close> of two
  variables declared as timestamps without time zone is reported mutable, because
  \<^verbatim>\<open>$a\<close> gets the type of \<^verbatim>\<open>ab\<close>; without \<^verbatim>\<open>ab\<close> it is not.
\<close>

theorem variable_lookup_takes_prefix:
  "variable_status [''ab'', ''a''] [TIMESTAMPTZOID, TIMESTAMPOID] (''a'' @ [CHR 0x00]) 1
     jpdsNonDateTime = jpdsDateTimeZoned \<and>
   is_mutable (encode path_var_a_eq_var_c True False) [''ab'', ''a'', ''c'']
     [TIMESTAMPTZOID, TIMESTAMPOID, TIMESTAMPOID] = Some (Inr True) \<and>
   is_mutable (encode path_var_a_eq_var_c True False) [''a'', ''c'']
     [TIMESTAMPOID, TIMESTAMPOID] = Some (Inr False)"
  by code_simp

subsection \<open>The walker's monad and what the walker keeps\<close>

lemma wbind_Inr:
  "wbind m f = Some (Inr y) \<longleftrightarrow> (\<exists>x. m = Some (Inr x) \<and> f x = Some (Inr y))"
  by (auto simp add: wbind_def split: option.splits sum.splits)

lemma wbind_Inl:
  "wbind m f = Some (Inl e) \<longleftrightarrow>
     (m = Some (Inl e) \<or> (\<exists>x. m = Some (Inr x) \<and> f x = Some (Inl e)))"
  by (auto simp add: wbind_def split: option.splits sum.splits)

lemma wlift_eq: "wlift r = Some s \<longleftrightarrow> r = s"
  by (simp add: wlift_def)

lemma wbind_cong_result:
  assumes "\<And>x. m = Some (Inr x) \<Longrightarrow> f x = g x"
  shows "wbind m f = wbind m g"
  using assms by (auto simp add: wbind_def split: option.splits sum.splits)

lemma walker_subscripts_lax:
  assumes self: "\<And>buf jpi cxt st r cxt'.
    self buf jpi cxt st = Some (Inr (r, cxt')) \<Longrightarrow> lax cxt' = lax cxt"
  shows "walker_subscripts self buf jpi cxt i k = Some (Inr cxt') \<Longrightarrow> lax cxt' = lax cxt"
proof (induction k arbitrary: cxt i)
  case 0
  then show ?case by simp
next
  case (Suc k)
  from Suc.prems show ?case
    by (auto simp add: wbind_Inr wlift_eq split: option.splits dest!: self Suc.IH)
qed

lemma walker_switch_lax:
  assumes self: "\<And>buf jpi cxt st r cxt'.
    self buf jpi cxt st = Some (Inr (r, cxt')) \<Longrightarrow> lax cxt' = lax cxt"
  shows "walker_switch self zoned buf jpi cxt st = Some (Inr (r, cxt')) \<Longrightarrow> lax cxt' = lax cxt"
proof -
  have sub: "\<And>buf jpi cxt i k cxt'.
      walker_subscripts self buf jpi cxt i k = Some (Inr cxt') \<Longrightarrow> lax cxt' = lax cxt"
    by (rule walker_subscripts_lax [OF self])
  show "walker_switch self zoned buf jpi cxt st = Some (Inr (r, cxt')) \<Longrightarrow> lax cxt' = lax cxt"
    unfolding walker_switch_def Let_def
    apply (simp add: wbind_Inr wlift_eq split: if_splits JsonPathItemContent.splits)
    apply (fastforce dest: self sub)+
    done
qed

lemma walker_round_lax:
  assumes self: "\<And>buf jpi cxt st r cxt'.
    self buf jpi cxt st = Some (Inr (r, cxt')) \<Longrightarrow> lax cxt' = lax cxt"
  shows "walker_round self zoned buf jpi cxt st = Some (Inr (r, cxt')) \<Longrightarrow> lax cxt' = lax cxt"
proof -
  have sw: "\<And>zoned buf jpi cxt st r cxt'.
      walker_switch self zoned buf jpi cxt st = Some (Inr (r, cxt')) \<Longrightarrow> lax cxt' = lax cxt"
    by (rule walker_switch_lax [OF self])
  show "walker_round self zoned buf jpi cxt st = Some (Inr (r, cxt')) \<Longrightarrow> lax cxt' = lax cxt"
    unfolding walker_round_def
    apply (simp add: wbind_Inr wlift_eq split: if_splits)
    apply (fastforce split: option.splits dest: self sw)
    done
qed

lemma walker_loop_lax:
  "walker_loop fuel zoned buf jpi cxt st = Some (Inr (r, cxt')) \<Longrightarrow> lax cxt' = lax cxt"
proof (induction fuel arbitrary: buf jpi cxt st r cxt')
  case 0
  then show ?case by simp
next
  case (Suc fuel)
  from Suc.prems show ?case
    by (simp add: walker_round_lax [where self = "walker_loop fuel zoned", OF Suc.IH])
qed

subsection \<open>Comparisons in the mutability analysis\<close>

lemma datetime_eq_datetime_root:
  "jspInit (encoded_data (encode path_datetime_eq_datetime True False)) =
     Inr \<lparr>type = jpiEqual, nextPos = 0, base = 0, content = CArgs 16 36\<rparr>"
  by code_simp

lemma datetime_eq_datetime_left:
  "jspGetLeftArg (encoded_data (encode path_datetime_eq_datetime True False))
     \<lparr>type = jpiEqual, nextPos = 0, base = 0, content = CArgs 16 36\<rparr> =
     Inr \<lparr>type = jpiRoot, nextPos = 8, base = 16, content = CNone\<rparr>"
  by code_simp

lemma datetime_eq_datetime_right:
  "jspGetRightArg (encoded_data (encode path_datetime_eq_datetime True False))
     \<lparr>type = jpiEqual, nextPos = 0, base = 0, content = CArgs 16 36\<rparr> =
     Inr \<lparr>type = jpiRoot, nextPos = 8, base = 36, content = CNone\<rparr>"
  by code_simp



lemma datetime_eq_datetime_mutable:
  "is_mutable (encode path_datetime_eq_datetime True False) [] [] = Some (Inr True)"
  by code_simp

lemma comparison_mutable_spec:
  "comparison_mutable l r \<longleftrightarrow>
     spec_comparison_mutable l r \<or> (l = jpdsUnknownDateTime \<and> r = jpdsUnknownDateTime)"
  by (cases l; cases r) (simp_all add: comparison_mutable_def spec_comparison_mutable_def
      concrete_status_def)








lemma cmp_type_root:
  "jspInit (encoded_data (encode path_cmp_type True False)) =
     Inr \<lparr>type = jpiEqual, nextPos = 56, base = 0, content = CArgs 16 36\<rparr>"
  by code_simp

lemma cmp_type_mutable:
  "is_mutable (encode path_cmp_type True False) [] [] = Some (Inr True)"
  by code_simp

text \<open>
  The walker's \<^verbatim>\<open>switch\<close> has no case for an array constructor, an object constructor
  or a sequence: their children are not walked, and a comparison below them is not
  reached. \<^verbatim>\<open>pg [$.datetime() == $.datetime()]\<close> is not reported mutable.
\<close>

lemma comparison_under_array_constructor:
  "is_mutable (encode path_array_of_cmp True True) [] [] = Some (Inr False)"
  by code_simp



subsection \<open>Array steps in the mutability analysis\<close>

lemma walker_any_array:
  assumes "\<not> mutable cxt" and "type jpi = jpiAnyArray"
  shows "walker_loop (Suc fuel) zoned buf jpi cxt status =
           walker_next (walker_loop fuel zoned) buf jpi cxt
             (if lax cxt then status else jpdsNonDateTime)"
  using assms
  by (simp add: walker_round_def walker_switch_def walker_next_def wbind_def
      comparison_types_def)

lemma walker_index_array:
  assumes "\<not> mutable cxt" and "type jpi = jpiIndexArray"
    and "content jpi = CArray nelems elems"
  shows "walker_loop (Suc fuel) zoned buf jpi cxt status =
           wbind (walker_subscripts (walker_loop fuel zoned) buf jpi cxt 0 (nat nelems))
             (\<lambda>cxt'. walker_next (walker_loop fuel zoned) buf jpi cxt'
                       (if lax cxt then status else jpdsNonDateTime))"
proof -
  have "walker_loop (Suc fuel) zoned buf jpi cxt status =
          wbind (walker_subscripts (walker_loop fuel zoned) buf jpi cxt 0 (nat nelems))
            (\<lambda>cxt'. walker_next (walker_loop fuel zoned) buf jpi cxt'
                      (if lax cxt' then status else jpdsNonDateTime))"
    using assms
    by (simp add: walker_round_def walker_switch_def walker_next_def comparison_types_def)
       (simp add: wbind_def split: option.splits sum.splits)
  also have "\<dots> =
          wbind (walker_subscripts (walker_loop fuel zoned) buf jpi cxt 0 (nat nelems))
            (\<lambda>cxt'. walker_next (walker_loop fuel zoned) buf jpi cxt'
                      (if lax cxt then status else jpdsNonDateTime))"
    by (rule wbind_cong_result)
       (simp add: walker_subscripts_lax [where self = "walker_loop fuel zoned",
          OF walker_loop_lax])
  finally show ?thesis .
qed

lemma walker_subscripts_steps:
  "walker_subscripts self buf jpi cxt i 0 = Some (Inr cxt)"
  "jspGetArraySubscript buf jpi i = Inr (from, Some to) \<Longrightarrow>
     walker_subscripts self buf jpi cxt i (Suc k) =
       wbind (self buf to cxt jpdsNonDateTime) (\<lambda>(st, cxt1).
       wbind (self buf from cxt1 jpdsNonDateTime) (\<lambda>(st, cxt2).
       walker_subscripts self buf jpi cxt2 (i + 1) k))"
  "jspGetArraySubscript buf jpi i = Inr (from, None) \<Longrightarrow>
     walker_subscripts self buf jpi cxt i (Suc k) =
       wbind (self buf from cxt jpdsNonDateTime) (\<lambda>(st, cxt1).
       walker_subscripts self buf jpi cxt1 (i + 1) k)"
  by (simp_all add: wbind_def wlift_def split: option.splits sum.splits)

lemma root_last_to_cmp_item:
  "jspInitByBuffer (encoded_data (encode path_root_last_to_cmp False False)) 0 8 =
     Inr \<lparr>type = jpiIndexArray, nextPos = 0, base = 8, content = CArray 1 20\<rparr>"
  by code_simp

lemma root_last_to_cmp_mutable:
  "is_mutable (encode path_root_last_to_cmp False False) [] [] = Some (Inr True)"
  by code_simp

text \<open>
  Claim C10. At an indexed array subscript the walker walks the expressions of every
  subscript in turn: for a range, the upper bound and then the lower bound, otherwise
  the single index; each walk starts from the status not-a-datetime, in the context
  the walk before it has left, so that a mutable comparison inside a subscript is
  found. After these walks, as at a wildcard array step, the status of the subject
  becomes not-a-datetime in strict mode and stays what it was in lax mode. The nested
  walks do not change the mode, so the mode is the one the walk arrived with.
\<close>

theorem array_step_status:
  "(\<not> mutable cxt \<and> type jpi = jpiIndexArray \<and> content jpi = CArray nelems elems \<longrightarrow>
      walker_loop (Suc fuel) zoned buf jpi cxt status =
        wbind (walker_subscripts (walker_loop fuel zoned) buf jpi cxt 0 (nat nelems))
          (\<lambda>cxt'. walker_next (walker_loop fuel zoned) buf jpi cxt'
                    (if lax cxt then status else jpdsNonDateTime))) \<and>
   (\<not> mutable cxt \<and> type jpi = jpiAnyArray \<longrightarrow>
      walker_loop (Suc fuel) zoned buf jpi cxt status =
        walker_next (walker_loop fuel zoned) buf jpi cxt
          (if lax cxt then status else jpdsNonDateTime)) \<and>
   walker_subscripts self buf jpi cxt i 0 = Some (Inr cxt) \<and>
   (jspGetArraySubscript buf jpi i = Inr (from, Some to) \<longrightarrow>
      walker_subscripts self buf jpi cxt i (Suc k) =
        wbind (self buf to cxt jpdsNonDateTime) (\<lambda>(st, cxt1).
        wbind (self buf from cxt1 jpdsNonDateTime) (\<lambda>(st, cxt2).
        walker_subscripts self buf jpi cxt2 (i + 1) k))) \<and>
   (jspGetArraySubscript buf jpi i = Inr (from, None) \<longrightarrow>
      walker_subscripts self buf jpi cxt i (Suc k) =
        wbind (self buf from cxt jpdsNonDateTime) (\<lambda>(st, cxt1).
        walker_subscripts self buf jpi cxt1 (i + 1) k))"
  using walker_index_array [of cxt jpi nelems elems fuel zoned buf status]
    walker_any_array [of cxt jpi fuel zoned buf status]
    walker_subscripts_steps(1) [of self buf jpi cxt i]
    walker_subscripts_steps(2) [of buf jpi i "from" to self cxt k]
    walker_subscripts_steps(3) [of buf jpi i "from" self cxt k]
  by blast

theorem array_step_status_witness:
  "walker_loop (Suc 5) (\<lambda>t. False) (encoded_data (encode path_root_last_to_cmp False False))
     \<lparr>type = jpiIndexArray, nextPos = 0, base = 8, content = CArray 1 20\<rparr>
     (empty_context False) jpdsDateTimeZoned =
     Some (Inr (jpdsNonDateTime, (empty_context False)\<lparr>mutable := True\<rparr>)) \<and>
   walker_loop (Suc 5) (\<lambda>t. False) (encoded_data (encode path_root_last_to_cmp False False))
     \<lparr>type = jpiIndexArray, nextPos = 0, base = 8, content = CArray 1 20\<rparr>
     (empty_context True) jpdsDateTimeZoned =
     Some (Inr (jpdsDateTimeZoned, (empty_context True)\<lparr>mutable := True\<rparr>))"
proof -
  let ?jpi = "\<lparr>type = jpiIndexArray, nextPos = 0, base = 8, content = CArray 1 20\<rparr>"
  let ?buf = "encoded_data (encode path_root_last_to_cmp False False)"
  let ?z = "\<lambda>t :: string. False"
  let ?rhs = "\<lambda>cxt. wbind (walker_subscripts (walker_loop 5 ?z) ?buf ?jpi cxt 0 (nat 1))
          (\<lambda>cxt'. walker_next (walker_loop 5 ?z) ?buf ?jpi cxt'
                    (if lax cxt then jpdsDateTimeZoned else jpdsNonDateTime))"
  have s: "\<not> mutable (empty_context False) \<and> type ?jpi = jpiIndexArray \<and>
           content ?jpi = CArray 1 20"
    by (simp add: empty_context_def)
  have l: "\<not> mutable (empty_context True) \<and> type ?jpi = jpiIndexArray \<and>
           content ?jpi = CArray 1 20"
    by (simp add: empty_context_def)
  have rs: "?rhs (empty_context False) =
              Some (Inr (jpdsNonDateTime, (empty_context False)\<lparr>mutable := True\<rparr>))"
    by code_simp
  have rl: "?rhs (empty_context True) =
              Some (Inr (jpdsDateTimeZoned, (empty_context True)\<lparr>mutable := True\<rparr>))"
    by code_simp
  from array_step_status [of "empty_context False" ?jpi 1 20 5 ?z ?buf jpdsDateTimeZoned] s
  have es: "walker_loop (Suc 5) ?z ?buf ?jpi (empty_context False) jpdsDateTimeZoned =
              ?rhs (empty_context False)"
    by blast
  from array_step_status [of "empty_context True" ?jpi 1 20 5 ?z ?buf jpdsDateTimeZoned] l
  have el: "walker_loop (Suc 5) ?z ?buf ?jpi (empty_context True) jpdsDateTimeZoned =
              ?rhs (empty_context True)"
    by blast
  from es rs have a: "walker_loop (Suc 5) ?z ?buf ?jpi (empty_context False) jpdsDateTimeZoned =
      Some (Inr (jpdsNonDateTime, (empty_context False)\<lparr>mutable := True\<rparr>))"
    by (rule trans)
  from el rl have b: "walker_loop (Suc 5) ?z ?buf ?jpi (empty_context True) jpdsDateTimeZoned =
      Some (Inr (jpdsDateTimeZoned, (empty_context True)\<lparr>mutable := True\<rparr>))"
    by (rule trans)
  from a b show ?thesis
    by (rule conjI)
qed


subsection \<open>Parentheses around operands\<close>







subsection \<open>Checks of the stack depth\<close>

lemma read_no_depth_error:
  "read_byte b p \<noteq> Inl StackDepthExceeded"
  "read_uint32 b p \<noteq> Inl StackDepthExceeded"
  "read_int32 b p \<noteq> Inl StackDepthExceeded"
  by (simp_all add: read_byte_def read_uint32_def read_int32_def split: sum.splits)

lemma jspInitByBuffer_no_depth_error:
  "jspInitByBuffer buf b p \<noteq> Inl StackDepthExceeded"
  unfolding jspInitByBuffer_def Let_def
  using read_no_depth_error
  by (auto split: sum.splits option.splits)

lemma accessors_no_depth_error:
  "jspGetArg buf v \<noteq> Inl StackDepthExceeded"
  "jspGetNext buf v \<noteq> Inl StackDepthExceeded"
  "jspGetLeftArg buf v \<noteq> Inl StackDepthExceeded"
  "jspGetRightArg buf v \<noteq> Inl StackDepthExceeded"
  "jspGetString buf v \<noteq> Inl StackDepthExceeded"
  "jspGetArraySubscript buf v i \<noteq> Inl StackDepthExceeded"
  using jspInitByBuffer_no_depth_error read_no_depth_error
  by (auto simp add: jspGetArg_def jspGetNext_def jspGetLeftArg_def jspGetRightArg_def
      jspGetString_def jspGetArraySubscript_def
      split: JsonPathItemContent.splits sum.splits if_splits)

lemma walker_subscripts_no_depth_error:
  assumes self: "\<And>buf jpi cxt st. self buf jpi cxt st \<noteq> Some (Inl StackDepthExceeded)"
  shows "walker_subscripts self buf jpi cxt i k \<noteq> Some (Inl StackDepthExceeded)"
proof (induction k arbitrary: cxt i)
  case 0
  then show ?case by simp
next
  case (Suc k)
  show ?case
    using self Suc.IH accessors_no_depth_error
    by (auto simp add: wbind_Inl wbind_Inr wlift_eq split: option.splits)
qed

lemma walker_switch_no_depth_error:
  assumes self: "\<And>buf jpi cxt st. self buf jpi cxt st \<noteq> Some (Inl StackDepthExceeded)"
  shows "walker_switch self zoned buf jpi cxt st \<noteq> Some (Inl StackDepthExceeded)"
proof -
  have sub: "\<And>buf jpi cxt i k.
      walker_subscripts self buf jpi cxt i k \<noteq> Some (Inl StackDepthExceeded)"
    by (rule walker_subscripts_no_depth_error [OF self])
  show ?thesis
    unfolding walker_switch_def Let_def
    using self sub accessors_no_depth_error jspInitByBuffer_no_depth_error
    by (auto simp add: wbind_Inl wbind_Inr wlift_eq split: JsonPathItemContent.splits)
qed

lemma walker_round_no_depth_error:
  assumes self: "\<And>buf jpi cxt st. self buf jpi cxt st \<noteq> Some (Inl StackDepthExceeded)"
  shows "walker_round self zoned buf jpi cxt st \<noteq> Some (Inl StackDepthExceeded)"
proof -
  have sw: "\<And>zoned buf jpi cxt st.
      walker_switch self zoned buf jpi cxt st \<noteq> Some (Inl StackDepthExceeded)"
    by (rule walker_switch_no_depth_error [OF self])
  show ?thesis
    unfolding walker_round_def
    using self sw accessors_no_depth_error
    by (auto simp add: wbind_Inl wbind_Inr wlift_eq split: option.splits)
qed

lemma walker_loop_no_depth_error:
  "walker_loop fuel zoned buf jpi cxt st \<noteq> Some (Inl StackDepthExceeded)"
proof (induction fuel arbitrary: buf jpi cxt st)
  case 0
  show ?case by simp
next
  case (Suc fuel)
  show ?case
    by (simp add: walker_round_no_depth_error [where self = "walker_loop fuel zoned", OF Suc.IH])
qed

lemma encode_depth_2:
  "flattenJsonPathParseItem 2 False path_datetime_eq_datetime 0 False
     (appendStringInfoSpaces [] JSONPATH_HDRSZ) = Inl StackDepthExceeded"
  by code_simp

lemma print_depth_2:
  "print_root 2 (encode path_datetime_eq_datetime True False) = Inl StackDepthExceeded"
  by code_simp

lemma print_depth_3:
  "print_root 3 (encode path_datetime_eq_datetime True False) =
     Inr ''($.datetime() == $.datetime())''"
  by code_simp

text \<open>
  Claim C5. The encoder and the printer check the depth of the stack on entry, and fail
  with the error of its own kind when none is left: with room for two nested calls,
  \<^verbatim>\<open>$.datetime() == $.datetime()\<close>, which needs three, is refused by both. The walker
  of the mutability analysis calls itself for the operands of a comparison, for the
  arguments of a filter and for subscripts, but has no such check: no run of it ends
  with that error, and the same path is analysed whatever the stack allows.
\<close>

theorem walker_has_no_depth_check:
  "flattenJsonPathParseItem 0 ext item nestingLevel insideArraySubscript buf0 =
     Inl StackDepthExceeded \<and>
   printJsonPathItem 0 numeric_out buf v inKey printBracketes = Inl StackDepthExceeded \<and>
   walker_loop fuel zoned buf jpi cxt status \<noteq> Some (Inl StackDepthExceeded) \<and>
   flattenJsonPathParseItem 2 False path_datetime_eq_datetime 0 False
     (appendStringInfoSpaces [] JSONPATH_HDRSZ) = Inl StackDepthExceeded \<and>
   print_root 2 (encode path_datetime_eq_datetime True False) = Inl StackDepthExceeded \<and>
   print_root 3 (encode path_datetime_eq_datetime True False) =
     Inr ''($.datetime() == $.datetime())'' \<and>
   is_mutable (encode path_datetime_eq_datetime True False) [] [] = Some (Inr True)"
  using walker_loop_no_depth_error [of fuel zoned buf jpi cxt status]
    encode_depth_2 print_depth_2 print_depth_3 datetime_eq_datetime_mutable
  by simp

subsection \<open>Printing and reading back\<close>

lemma mul_type_plus_c_text:
  "print_path (encode path_mul_type_plus_c True False) =
     Inr (''($.'' @ quoted ''a'' @ '' * $.'' @ quoted ''b'' @ ''.type() + $.'' @ quoted ''c''
          @ '')'')"
  by code_simp

lemma mul_b_type_plus_c_text:
  "print_path (encode path_mul_b_type_plus_c True False) =
     Inr (''($.'' @ quoted ''a'' @ '' * $.'' @ quoted ''b'' @ ''.type() + $.'' @ quoted ''c''
          @ '')'')"
  by code_simp

lemma mul_type_plus_c_differs:
  "encode path_mul_type_plus_c True False \<noteq> encode path_mul_b_type_plus_c True False"
  by code_simp

text \<open>
  Claim C1. The printer writes a binary operator that has a successor without
  parentheses when its parent has a lower priority: the path
  \<^verbatim>\<open>($.a * $.b).type() + $.c\<close> and the path \<^verbatim>\<open>$.a * $.b.type() + $.c\<close> have different
  encodings and the same printed text, so the text printed for the first cannot be read
  back as the first.
\<close>

theorem printer_merges_two_paths:
  "encode path_mul_type_plus_c True False \<noteq> encode path_mul_b_type_plus_c True False \<and>
   print_path (encode path_mul_type_plus_c True False) =
     Inr (''($.'' @ quoted ''a'' @ '' * $.'' @ quoted ''b'' @ ''.type() + $.'' @ quoted ''c''
          @ '')'') \<and>
   print_path (encode path_mul_b_type_plus_c True False) =
     print_path (encode path_mul_type_plus_c True False)"
  using mul_type_plus_c_text mul_b_type_plus_c_text mul_type_plus_c_differs
  by simp

end
